theory Spec2Isabelle
  imports Main "HOL-Library.Char_ord" "HOL-Library.List_Lexorder"
begin

section \<open>Python values shared by the models\<close>

text \<open>
  A Python name that holds either \<open>None\<close> or a \<open>str\<close> is a \<open>string option\<close>.
  \<open>truthy\<close> is Python's truth test on such a value: \<open>None\<close> and the empty
  string are false, every other string is true.
\<close>

fun truthy :: "string option \<Rightarrow> bool" where
  "truthy None = False"
| "truthy (Some s) = (s \<noteq> [])"

text \<open>
  The exceptions the modelled code raises or lets through. \<open>ExternalError\<close> stands for
  any exception other than \<open>ValueError\<close> coming out of a call into code that is not
  part of these sources.
\<close>

datatype exn =
    DashboardException string
  | MetadataException string
  | UnboundLocalError string
  | AttributeError string
  | KeyError string
  | TypeError
  | ValueError
  | ExternalError

section \<open>dashboard.py: tables of the dashboard database\<close>

text \<open>
  The ORM classes \<open>Study\<close>, \<open>Session\<close>, \<open>Scan\<close> and \<open>Session_Scan\<close> are
  records of the columns the code reads and writes. A relationship attribute
  (\<open>link.scan\<close>, \<open>session.study\<close>) is held by the key of the row it points to.
  A column that \<open>Session()\<close> or \<open>Scan()\<close> leaves unassigned is \<open>None\<close>.
\<close>

type_synonym datetime = "nat \<times> nat \<times> nat"

record study =
  nickname :: string
  sites :: "string list"
  scantypes :: "string list"

record session =
  ses_id :: nat
  ses_name :: string
  ses_study :: string
  ses_site :: string
  ses_date :: "datetime option"
  cl_comment :: "string option"
  ses_is_phantom :: "bool option"
  is_repeated :: "bool option"
  repeat_count :: "nat option"

record scan =
  scan_id :: nat
  scan_name :: string
  series_number :: string
  scantype :: string
  description :: string
  repeat_number :: "int option"
  bl_comment :: "string option"

record session_scan =
  link_scan_id :: nat
  link_session_id :: nat
  link_scan_name :: string
  is_primary :: bool

record database =
  sessions :: "session list"
  scans :: "scan list"
  links :: "session_scan list"
  scantype_tbl :: "string list"

text \<open>
  \<open>datman.scanid\<close>, \<open>datman.utils.check_checklist\<close> and
  \<open>datman.utils.check_blacklist\<close> are called by \<open>dashboard.py\<close> but are not
  defined in the sources at hand, and \<open>datetime\<close> and \<open>int\<close> are Python's own.
  They are parameters of the model, collected in \<open>env\<close>. An identifier object is the
  record of what the code reads from it: \<open>ident.site\<close>, \<open>ident.session\<close>,
  \<open>str(ident)\<close> and \<open>ident.get_full_subjectid_with_timepoint()\<close>. A parser that
  raises \<open>ParseException\<close> returns \<open>None\<close>. A call that may raise is a \<open>call\<close>.
\<close>

record ident =
  id_site :: string
  id_session :: string
  id_str :: string
  id_full_subjectid_with_timepoint :: string

datatype call = Returns "string option" | RaisesValueError | RaisesOther

record env =
  scanid_parse :: "string \<Rightarrow> ident option"
  scanid_parse_filename :: "string \<Rightarrow> (ident \<times> string \<times> string \<times> string) option"
  scanid_is_phantom :: "string \<Rightarrow> bool"
  strptime :: "string \<Rightarrow> datetime option"
  strftime :: "datetime \<Rightarrow> string"
  py_int :: "string \<Rightarrow> int option"
  check_checklist :: "string \<Rightarrow> string \<Rightarrow> call"
  check_blacklist :: "string \<Rightarrow> string \<Rightarrow> call"

text \<open>What the code writes to its logger, one constructor per message.\<close>

datatype log_event =
    Study_not_set
  | Invalid_session string
  | Invalid_site string string
  | Invalid_date string string
  | Found_session string
  | Updating_date string
  | Session_doesnt_exist string
  | Creating_session string
  | Failed_to_check_checklist string
  | Failed_updating_db_comment string
  | Error_adding_session string
  | Invalid_scan_name string
  | Found_scan string
  | Scan_not_unique string
  | Scan_not_found_create_false string
  | Scantype_not_found string
  | Scantype_not_valid string string
  | Failed_to_check_blacklist string
  | Comment_in_db_not_in_blacklist string "string option"
  | Error_adding_scan string
  | Skipping_empty_blacklist_comment string
  | Malformed_scan_name string
  | Blacklisted_not_in_checklist string string

definition fresh_id :: "nat list \<Rightarrow> nat" where
  "fresh_id ids = Suc (fold max ids 0)"

fun replace_first :: "('a \<Rightarrow> bool) \<Rightarrow> 'a \<Rightarrow> 'a list \<Rightarrow> 'a list" where
  "replace_first P y [] = []"
| "replace_first P y (x # xs) = (if P x then y # xs else x # replace_first P y xs)"

section \<open>dashboard.get_add_session\<close>

text \<open>
  What \<open>get_add_session\<close> hands back when it returns: \<open>None\<close>, a session row, or
  (on the \<open>Study not set\<close> path, which returns the exception instead of raising it)
  an exception object.
\<close>

datatype session_ret = RetNone | RetException exn | RetSession session

definition session_query :: "study \<Rightarrow> string \<Rightarrow> database \<Rightarrow> session list" where
  "session_query st session_name db =
     filter (\<lambda>s. ses_study s = nickname st \<and> ses_name s = session_name) (sessions db)"

text \<open>
  Lines 67 to 109: the lookup. The result is either the early \<open>return None\<close>
  (\<open>Inl\<close>), or the log, the local variable \<open>dashboard_session\<close> (\<open>None\<close> while
  it is unbound) and the database with the pending change.
  \<^verbatim>\<open>
        qry = Session.query.filter(Session.study == self.study).filter(Session.name == session_name)
        if qry.count() == 1:
            dashboard_session = qry.first()
            if date:
                db_session_date = ''
                xnat_session_date = ''
                try:
                    db_session_date = datetime.strftime(dashboard_session.date, '%Y-%m-%d')
                except TypeError: ...
                try:
                    xnat_session_date = datetime.strftime(date, '%Y-%m-%d')
                except TypeError: ...
                if not db_session_date == xnat_session_date:
                    dashboard_session.date = date
                    db.session.add(dashboard_session)
        elif qry.count() < 1:
            if create:
                dashboard_session = Session()
                dashboard_session.site = dashboard_site[0]
                dashboard_session.name = session_name
                dashboard_session.study = self.study
                dashboard_session.date = date
                dashboard_session.is_repeated = False
                dashboard_session.repeat_count = 1
                if datman.scanid.is_phantom(session_name):
                    dashboard_session.is_phantom = True
                db.session.add(dashboard_session)
            else:
                return None
  \<close>
\<close>

definition session_lookup ::
  "env \<Rightarrow> study \<Rightarrow> string \<Rightarrow> string \<Rightarrow> datetime option \<Rightarrow> bool \<Rightarrow> database
     \<Rightarrow> log_event list + (log_event list \<times> session option \<times> database)" where
  "session_lookup e st site session_name date create db =
     (let qry = session_query st session_name db in
      if length qry = 1 then
        (let dashboard_session = hd qry in
         case date of
           None \<Rightarrow> Inr ([Found_session session_name], Some dashboard_session, db)
         | Some d \<Rightarrow>
             let db_session_date =
                   (case ses_date dashboard_session of None \<Rightarrow> [] | Some d0 \<Rightarrow> strftime e d0);
                 xnat_session_date = strftime e d
             in if db_session_date \<noteq> xnat_session_date then
                  (let s' = dashboard_session\<lparr>ses_date := Some d\<rparr> in
                   Inr ([Found_session session_name, Updating_date session_name], Some s',
                        db\<lparr>sessions := replace_first (\<lambda>s. s = dashboard_session) s' (sessions db)\<rparr>))
                else Inr ([Found_session session_name], Some dashboard_session, db))
      else if length qry < 1 then
        (if create then
           (let s' = \<lparr> ses_id = fresh_id (map ses_id (sessions db)),
                        ses_name = session_name,
                        ses_study = nickname st,
                        ses_site = site,
                        ses_date = date,
                        cl_comment = None,
                        ses_is_phantom = (if scanid_is_phantom e session_name then Some True else None),
                        is_repeated = Some False,
                        repeat_count = Some 1 \<rparr>
            in Inr ([Session_doesnt_exist session_name, Creating_session session_name], Some s',
                    db\<lparr>sessions := sessions db @ [s']\<rparr>))
         else Inl [Session_doesnt_exist session_name])
      else Inr ([], None, db))"

text \<open>
  Lines 110 to 131: the checklist comment, the commit and the return. \<open>cl\<close> is the
  outcome of \<open>datman.utils.check_checklist\<close>; after a \<open>ValueError\<close> the local
  \<open>cl_comment\<close> is unbound and the \<open>if\<close> that reads it raises. Reading
  \<open>dashboard_session\<close> while it is unbound raises as well.
  \<^verbatim>\<open>
        try:
            cl_comment = datman.utils.check_checklist(session_name, study=self.study.nickname)
        except ValueError as e:
            logger.error(...)
        if cl_comment and not cl_comment == dashboard_session.cl_comment:
            try:
                dashboard_session.cl_comment = cl_comment
            except Exception:
                logger.error(...)
        try:
            db.session.commit()
        except Exception as e:
            logger.error(...)
            return None
        return dashboard_session
  \<close>
\<close>

definition session_finish ::
  "call \<Rightarrow> bool \<Rightarrow> string \<Rightarrow> database \<Rightarrow> log_event list \<Rightarrow> session option \<Rightarrow> database
     \<Rightarrow> log_event list \<times> (exn + session_ret) \<times> database" where
  "session_finish cl commit_ok session_name db0 lg dashboard_session db1 =
     (case cl of
        RaisesOther \<Rightarrow> (lg, Inl ExternalError, db0)
      | RaisesValueError \<Rightarrow>
          (lg @ [Failed_to_check_checklist session_name],
           Inl (UnboundLocalError ''cl_comment''), db0)
      | Returns clc \<Rightarrow>
          if truthy clc \<and> dashboard_session = None then
            (lg, Inl (UnboundLocalError ''dashboard_session''), db0)
          else
            (let ds = (case dashboard_session of
                         None \<Rightarrow> None
                       | Some s \<Rightarrow>
                           if truthy clc \<and> clc \<noteq> cl_comment s
                           then Some (s\<lparr>cl_comment := clc\<rparr>) else Some s);
                 db2 = (case (dashboard_session, ds) of
                          (Some s, Some s') \<Rightarrow>
                            if s' = s then db1
                            else db1\<lparr>sessions := replace_first (\<lambda>r. r = s) s' (sessions db1)\<rparr>
                        | _ \<Rightarrow> db1)
             in if \<not> commit_ok then
                  (lg @ [Error_adding_session session_name], Inr RetNone, db0)
                else (case ds of
                        None \<Rightarrow> (lg, Inl (UnboundLocalError ''dashboard_session''), db2)
                      | Some s' \<Rightarrow> (lg, Inr (RetSession s'), db2))))"

text \<open>
  The whole method. \<open>self_study\<close> is \<open>self.study\<close>, \<open>None\<close> while no study is set.
  \<^verbatim>\<open>
    def get_add_session(self, session_name, date=None, create=False):
        if not self.study:
            logger.error('Study not set')
            return DashboardException('Study not set')
        try:
            ident = datman.scanid.parse(session_name)
        except datman.scanid.ParseException:
            raise DashboardException('Invalid session name:{}'.format(session_name))
        dashboard_site = [site for site in self.study.sites if site.name == ident.site]
        if not dashboard_site:
            raise DashboardException('Invalid site')
        if date:
            try:
                date = datetime.strptime(date, '%Y-%m-%d')
            except ValueError:
                raise DashboardException('Invalid date')
        ...
  \<close>
\<close>

definition get_add_session ::
  "env \<Rightarrow> bool \<Rightarrow> study option \<Rightarrow> string \<Rightarrow> string option \<Rightarrow> bool \<Rightarrow> database
     \<Rightarrow> log_event list \<times> (exn + session_ret) \<times> database" where
  "get_add_session e commit_ok self_study session_name date create db =
     (case self_study of
        None \<Rightarrow> ([Study_not_set], Inr (RetException (DashboardException ''Study not set'')), db)
      | Some st \<Rightarrow>
     (case scanid_parse e session_name of
        None \<Rightarrow> ([Invalid_session session_name],
                  Inl (DashboardException (''Invalid session name:'' @ session_name)), db)
      | Some ident \<Rightarrow>
     (let dashboard_site = filter (\<lambda>site. site = id_site ident) (sites st) in
      if dashboard_site = [] then
        ([Invalid_site (id_site ident) session_name], Inl (DashboardException ''Invalid site''), db)
      else if truthy date \<and> strptime e (the date) = None then
        ([Invalid_date (the date) session_name], Inl (DashboardException ''Invalid date''), db)
      else
        (let date' = (if truthy date then strptime e (the date) else None) in
         case session_lookup e st (hd dashboard_site) session_name date' create db of
           Inl lg \<Rightarrow> (lg, Inr RetNone, db)
         | Inr (lg, dashboard_session, db1) \<Rightarrow>
             session_finish (check_checklist e session_name (nickname st)) commit_ok
               session_name db lg dashboard_session db1))))"

section \<open>dashboard.get_add_scan\<close>

text \<open>
  \<^verbatim>\<open>
    def get_scantype(self, scantype):
        qry = ScanType.query.filter(ScanType.name == scantype)
        if qry.count() < 1:
            logger.error('Scantype:{} not found in database'.format(scantype))
            raise DashboardException('Invalid scantype')
        else:
            return qry.first()
  \<close>
\<close>

definition get_scantype :: "string \<Rightarrow> database \<Rightarrow> log_event list \<times> (exn + string)" where
  "get_scantype tag db =
     (let qry = filter (\<lambda>t. t = tag) (scantype_tbl db) in
      if length qry < 1 then ([Scantype_not_found tag], Inl (DashboardException ''Invalid scantype''))
      else ([], Inr (hd qry)))"

text \<open>
  The query of \<open>get_add_scan\<close>: \<open>Scan\<close> joined with \<open>Session_Scan\<close>,
  \<open>Session\<close> and \<open>Study\<close>, one result row for every link of a matching scan to a
  matching session; \<open>rep\<close> is the repeat number filtered on when \<open>ident.session\<close>
  is set.
  \<^verbatim>\<open>
        qry = db.session.query(Scan).join(Session_Scan).join(Session).join(Study, Session.study) \
                        .filter(Session.name == session_name) \
                        .filter(Study.nickname == self.study.nickname) \
                        .filter(Scan.name == scan_id)
        if ident.session:
            qry = qry.filter(Scan.repeat_number == int(ident.session))
  \<close>
\<close>

definition scan_query :: "study \<Rightarrow> string \<Rightarrow> string \<Rightarrow> int option \<Rightarrow> database \<Rightarrow> scan list" where
  "scan_query st session_name sid rep db =
     [sc. sc \<leftarrow> scans db, l \<leftarrow> links db, link_scan_id l = scan_id sc,
          s \<leftarrow> sessions db, ses_id s = link_session_id l,
          ses_name s = session_name, ses_study s = nickname st, scan_name sc = sid,
          rep = None \<or> repeat_number sc = rep]"

text \<open>
  Lines 215 to 238: the blacklist reconciliation, the commit and the return.
  \<open>bl\<close> is the outcome of \<open>datman.utils.check_blacklist\<close>. After a
  \<open>ValueError\<close> the local \<open>bl_comment\<close> is unbound, reading it raises inside the
  second \<open>try\<close>, and the handler turns that into a \<open>DashboardException\<close>.
  \<open>db0\<close> is the database as last committed, \<open>db1\<close> the database with the pending
  rows.
  \<^verbatim>\<open>
        try:
            bl_comment = datman.utils.check_blacklist(scan_name, study=self.study.nickname)
        except ValueError as e:
            logger.error('Failed to check blacklist for scan:{} with error:{}' ...)
        try:
            if not bl_comment and not bl_comment == dashboard_scan.bl_comment:
                # this shouldn't happen but is possible
                logger.error('Scan:{} has a blacklist comment in dashboard db'
                             ' which is not present in metadata/blacklist.csv.'
                             ' Comment:{}'.format(dashboard_scan.name, dashboard_scan.bl_comment))
            elif bl_comment and not bl_comment == dashboard_scan.bl_comment:
                dashboard_scan.bl_comment = bl_comment
            db.session.commit()
        except Exception as e:
            logger.error('An error occured adding scan:{} to the db.Error:{}' ...)
            raise DashboardException
        return(dashboard_scan)
  \<close>
\<close>

definition scan_finish ::
  "call \<Rightarrow> bool \<Rightarrow> string \<Rightarrow> database \<Rightarrow> log_event list \<Rightarrow> scan \<Rightarrow> database
     \<Rightarrow> log_event list \<times> (exn + scan option) \<times> database" where
  "scan_finish bl commit_ok name db0 lg dashboard_scan db1 =
     (case bl of
        RaisesOther \<Rightarrow> (lg, Inl ExternalError, db0)
      | RaisesValueError \<Rightarrow>
          (lg @ [Failed_to_check_blacklist name, Error_adding_scan name],
           Inl (DashboardException []), db0)
      | Returns blc \<Rightarrow>
          (let lg1 = (if \<not> truthy blc \<and> blc \<noteq> bl_comment dashboard_scan
                      then lg @ [Comment_in_db_not_in_blacklist (scan_name dashboard_scan)
                                   (bl_comment dashboard_scan)]
                      else lg);
               sc' = (if \<not> truthy blc \<and> blc \<noteq> bl_comment dashboard_scan then dashboard_scan
                      else if truthy blc \<and> blc \<noteq> bl_comment dashboard_scan
                      then dashboard_scan\<lparr>bl_comment := blc\<rparr>
                      else dashboard_scan)
           in if \<not> commit_ok then
                (lg1 @ [Error_adding_scan name], Inl (DashboardException []), db0)
              else
                (lg1, Inr (Some sc'),
                 db1\<lparr>scans := replace_first (\<lambda>r. r = dashboard_scan) sc' (scans db1)\<rparr>)))"

text \<open>
  Lines 167 to 214: the scan is not in the database. \<open>rep\<close> is
  \<open>int(ident.session)\<close> when \<open>ident.session\<close> is set. The result is an early exit
  (\<open>Inl\<close>) or the log, the new scan and the database as committed by
  \<open>get_add_session\<close> and with the pending scan and link.
  \<^verbatim>\<open>
            if not create:
                return
            try:
                dashboard_session = self.get_add_session(session_name, create=create)
            except DashboardException as e:
                raise(e)
            try:
                dashboard_scantype = self.get_scantype(tag)
            except DashboardException as e:
                raise(e)
            if not dashboard_scantype in self.study.scantypes:
                raise DashboardException('Invalid scantype')
            dashboard_scan = Scan()
            dashboard_scan.name = scan_id
            dashboard_scan.series_number = series
            dashboard_scan.scantype = dashboard_scantype
            dashboard_scan.description = desc
            if ident.session:
                dashboard_scan.repeat_number = int(ident.session)
            db.session.add(dashboard_scan)
            db.session.flush()
            dashboard_session_scan_link = Session_Scan()
            dashboard_session_scan_link.scan_id = dashboard_scan.id
            dashboard_session_scan_link.session_id = dashboard_session.id
            dashboard_session_scan_link.is_primary = True
            dashboard_session_scan_link.scan_name = scan_id
            db.session.add(dashboard_session_scan_link)
  \<close>
\<close>

definition scan_create ::
  "env \<Rightarrow> bool \<Rightarrow> study \<Rightarrow> string \<Rightarrow> string \<Rightarrow> string \<Rightarrow> string \<Rightarrow> string \<Rightarrow> string
     \<Rightarrow> int option \<Rightarrow> bool \<Rightarrow> database
     \<Rightarrow> (log_event list \<times> (exn + scan option) \<times> database)
        + (log_event list \<times> scan \<times> database \<times> database)" where
  "scan_create e session_commit_ok st name session_name sid tag series desc rep create db =
     (if \<not> create then Inl ([Scan_not_found_create_false name], Inr None, db)
      else
        case get_add_session e session_commit_ok (Some st) session_name None create db of
          (lg, Inl x, db') \<Rightarrow> Inl (lg, Inl x, db')
        | (lg, Inr r, db') \<Rightarrow>
        (case get_scantype tag db' of
          (lg2, Inl x) \<Rightarrow> Inl (lg @ lg2, Inl x, db')
        | (lg2, Inr dashboard_scantype) \<Rightarrow>
            if dashboard_scantype \<notin> set (scantypes st) then
              Inl (lg @ lg2 @ [Scantype_not_valid dashboard_scantype (nickname st)],
                   Inl (DashboardException ''Invalid scantype''), db')
            else
              (let dashboard_scan =
                     \<lparr> scan_id = fresh_id (map scan_id (scans db')),
                       scan_name = sid,
                       series_number = series,
                       scantype = dashboard_scantype,
                       description = desc,
                       repeat_number = rep,
                       bl_comment = None \<rparr>
               in case r of
                    RetSession dashboard_session \<Rightarrow>
                      (let link = \<lparr> link_scan_id = scan_id dashboard_scan,
                                     link_session_id = ses_id dashboard_session,
                                     link_scan_name = sid,
                                     is_primary = True \<rparr>
                       in Inr (lg @ lg2, dashboard_scan, db',
                               db'\<lparr>scans := scans db' @ [dashboard_scan],
                                   links := links db' @ [link]\<rparr>))
                  | _ \<Rightarrow> Inl (lg @ lg2, Inl (AttributeError ''id''), db'))))"

text \<open>
  The whole method. \<open>session_commit_ok\<close> and \<open>commit_ok\<close> say whether the commit
  in \<open>get_add_session\<close> and the commit at the end of \<open>get_add_scan\<close> succeed.
  \<^verbatim>\<open>
    def get_add_scan(self, scan_name, create=False):
        if not self.study:
            raise DashboardException('Study not set')
        try:
            ident, tag, series, desc = datman.scanid.parse_filename(scan_name)
        except datman.scanid.ParseException as e:
            raise DashboardException('Invalid scan_name')
        scan_id = '{}_{}_{}'.format(str(ident), tag, series)
        session_name = ident.get_full_subjectid_with_timepoint()
        qry = ...
        if qry.count() == 1:
            dashboard_scan = qry.first()
        elif qry.count() > 1:
            raise DashboardException('Scan not unique')
        else:
            ...
  \<close>
\<close>

definition get_add_scan ::
  "env \<Rightarrow> bool \<Rightarrow> bool \<Rightarrow> study option \<Rightarrow> string \<Rightarrow> bool \<Rightarrow> database
     \<Rightarrow> log_event list \<times> (exn + scan option) \<times> database" where
  "get_add_scan e session_commit_ok commit_ok self_study name create db =
     (case self_study of
        None \<Rightarrow> ([Study_not_set], Inl (DashboardException ''Study not set''), db)
      | Some st \<Rightarrow>
     (case scanid_parse_filename e name of
        None \<Rightarrow> ([Invalid_scan_name name], Inl (DashboardException ''Invalid scan_name''), db)
      | Some (ident, tag, series, desc) \<Rightarrow>
     (let sid = id_str ident @ ''_'' @ tag @ ''_'' @ series;
          session_name = id_full_subjectid_with_timepoint ident
      in if id_session ident \<noteq> [] \<and> py_int e (id_session ident) = None then
           ([], Inl ValueError, db)
         else
           (let rep = (if id_session ident \<noteq> [] then py_int e (id_session ident) else None);
                qry = scan_query st session_name sid rep db;
                bl = check_blacklist e name (nickname st)
            in if length qry = 1 then
                 scan_finish bl commit_ok name db [Found_scan name] (hd qry) db
               else if length qry > 1 then
                 ([Scan_not_unique name], Inl (DashboardException ''Scan not unique''), db)
               else
                 (case scan_create e session_commit_ok st name session_name sid tag series desc
                         rep create db of
                    Inl out \<Rightarrow> out
                  | Inr (lg, dashboard_scan, db0, db1) \<Rightarrow>
                      scan_finish bl commit_ok name db0 lg dashboard_scan db1)))))"

section \<open>dashboard.get_add_session_scan_link\<close>

text \<open>
  \<^verbatim>\<open>
  def get_add_session_scan_link(target_session, scan, new_name=None, is_primary=False):
      qry = Session_Scan.query.filter(Session_Scan.session == target_session,
                                      Session_Scan.scan == scan)
      if qry.count() == 1:
          return qry.first()
      link = Session_Scan()
      link.scan = scan
      link.session = target_session
      if new_name:
          link.scan_name = new_name
      else:
          link.scan_name = scan.name
      link.is_primary = False
      db.session.add(link)
      db.session.commit()
      return link
  \<close>
  \<open>commit_ok\<close> says whether \<open>db.session.commit()\<close> succeeds (it raises otherwise,
  and nothing catches it). The result is the returned row and the link table after the
  call.
\<close>

definition link_query :: "session \<Rightarrow> scan \<Rightarrow> session_scan list \<Rightarrow> session_scan list" where
  "link_query target_session sc tbl =
     filter (\<lambda>l. link_session_id l = ses_id target_session \<and> link_scan_id l = scan_id sc) tbl"

definition get_add_session_scan_link ::
  "session \<Rightarrow> scan \<Rightarrow> string option \<Rightarrow> bool \<Rightarrow> bool \<Rightarrow> session_scan list
     \<Rightarrow> exn + (session_scan \<times> session_scan list)" where
  "get_add_session_scan_link target_session sc new_name is_primary_arg commit_ok tbl =
     (let qry = link_query target_session sc tbl in
      if length qry = 1 then Inr (hd qry, tbl)
      else
        let link = \<lparr> link_scan_id = scan_id sc,
                      link_session_id = ses_id target_session,
                      link_scan_name = (if truthy new_name then the new_name else scan_name sc),
                      is_primary = False \<rparr>
        in if commit_ok then Inr (link, tbl @ [link]) else Inl ExternalError)"

section \<open>utils.py: write_metadata\<close>

text \<open>
  The file system maps a path to the content of the file there. Whether a write
  succeeds is decided by the environment: \<open>att k\<close> is the outcome of the \<open>k\<close>-th
  attempt to open and write a file, and a failed attempt leaves the file as the
  environment says (untouched, truncated, or absent). What the code does besides is
  recorded as a trace: each \<open>open(path, "w")\<close>, each error logged with the tries
  remaining, each \<open>time.sleep\<close> of a \<open>random.uniform(0, 10)\<close> duration.
\<close>

type_synonym filesystem = "string \<rightharpoonup> string"

datatype attempt = Succeeds | Fails "string option"

datatype io_event = Open_write string | Log_failed_write string int | Sleep

text \<open>
  \<^verbatim>\<open>
  def write_metadata(lines, path, retry=3):
      if not retry:
          raise MetadataException("Failed to update {}".format(path))
      try:
          with open(path, "w") as meta_file:
              meta_file.writelines(lines)
      except:
          logger.error("Failed to write metadata file {}. Tries "
                  "remaining - {}".format(path, retry))
          wait_time = random.uniform(0, 10)
          time.sleep(wait_time)
          write_metadata(lines, path, retry=retry-1)
  \<close>
  \<open>retry\<close> is a Python integer; only \<open>0\<close> is false, so a negative \<open>retry\<close> with
  writes that always fail recurses for ever, and the model has no value there. The state
  is the number of write attempts made so far, the trace and the file system.
\<close>

partial_function (option) write_metadata ::
  "(nat \<Rightarrow> attempt) \<Rightarrow> string list \<Rightarrow> string \<Rightarrow> int \<Rightarrow> nat \<times> io_event list \<times> filesystem
     \<Rightarrow> ((exn + unit) \<times> nat \<times> io_event list \<times> filesystem) option" where
  "write_metadata att lines path retry st =
     (case st of (k, tr, fs) \<Rightarrow>
        if retry = 0 then
          Some (Inl (MetadataException (''Failed to update '' @ path)), k, tr, fs)
        else
          (case att k of
             Succeeds \<Rightarrow> Some (Inr (), Suc k, tr @ [Open_write path], fs(path \<mapsto> concat lines))
           | Fails c \<Rightarrow>
               write_metadata att lines path (retry - 1)
                 (Suc k, tr @ [Open_write path, Log_failed_write path retry, Sleep],
                  fs(path := c))))"

declare write_metadata.simps [code]

text \<open>The trace of \<open>n\<close> failed attempts in a row, the first with \<open>retry\<close> tries remaining.\<close>

fun failed_rounds :: "string \<Rightarrow> int \<Rightarrow> nat \<Rightarrow> io_event list" where
  "failed_rounds path retry 0 = []"
| "failed_rounds path retry (Suc n) =
     [Open_write path, Log_failed_write path retry, Sleep] @ failed_rounds path (retry - 1) n"

section \<open>Python strings\<close>

text \<open>
  A Python \<open>str\<close> is a \<open>string\<close>; a character of the model is a code point below
  256. These are the string operations \<open>utils.py\<close> uses on checklist and blacklist
  lines. \<open>isspace\<close> is the whitespace of \<open>str.split()\<close>, of \<open>str.strip()\<close>
  and of \<open>\s\<close> in a regular expression over \<open>str\<close> in Python 3 (the package needs
  Python 3.5 or later): of the code points below 256 these are the tab, the line feed, the
  vertical tab, the form feed, the carriage return, the four separators \<open>0x1C\<close> to
  \<open>0x1F\<close>, the space, the next-line character \<open>0x85\<close> and the no-break space
  \<open>0xA0\<close>.
\<close>

definition isspace :: "char \<Rightarrow> bool" where
  "isspace c = (c \<in> {CHR 0x09, CHR 0x0A, CHR 0x0B, CHR 0x0C, CHR 0x0D,
                       CHR 0x1C, CHR 0x1D, CHR 0x1E, CHR 0x1F, CHR '' '',
                       CHR 0x85, CHR 0xA0})"

text \<open>
  \<open>s.split()\<close>: the maximal runs of non-whitespace characters. \<open>split_from w s\<close>
  reads \<open>s\<close> with the word \<open>w\<close> begun.
\<close>

primrec split_from :: "string \<Rightarrow> string \<Rightarrow> string list" where
  "split_from w [] = (if w = [] then [] else [w])"
| "split_from w (c # cs) =
     (if isspace c then (if w = [] then split_from [] cs else w # split_from [] cs)
      else split_from (w @ [c]) cs)"

definition str_split :: "string \<Rightarrow> string list" where
  "str_split s = split_from [] s"

text \<open>\<open>sep.join(xs)\<close> and \<open>s.strip()\<close>.\<close>

fun str_join :: "string \<Rightarrow> string list \<Rightarrow> string" where
  "str_join sep [] = []"
| "str_join sep [x] = x"
| "str_join sep (x # y # ys) = x @ sep @ str_join sep (y # ys)"

definition str_strip :: "string \<Rightarrow> string" where
  "str_strip s = rev (dropWhile isspace (rev (dropWhile isspace s)))"

text \<open>
  \<open>s.replace(old, new)\<close> for a non-empty \<open>old\<close>: the occurrences are found from
  the left and do not overlap.
\<close>

function str_replace :: "string \<Rightarrow> string \<Rightarrow> string \<Rightarrow> string" where
  "str_replace old new s =
     (if old = [] \<or> s = [] then s
      else if take (length old) s = old then new @ str_replace old new (drop (length old) s)
      else hd s # str_replace old new (tl s))"
  by pat_completeness auto
termination
  by (relation "measure (\<lambda>(old, new, s). length s)") auto

text \<open>
  \<open>os.path.splitext(p)\<close>: the extension starts at the last dot of the last path
  component, unless only dots precede it there.
  \<^verbatim>\<open>
    sepIndex = p.rfind(sep)
    dotIndex = p.rfind(extsep)
    if dotIndex > sepIndex:
        # skip all leading dots
        filenameIndex = sepIndex + 1
        while filenameIndex < dotIndex:
            if p[filenameIndex:filenameIndex+1] != extsep:
                return p[:dotIndex], p[dotIndex:]
            filenameIndex += 1
    return p, p[:0]
  \<close>
\<close>

definition splitext :: "string \<Rightarrow> string \<times> string" where
  "splitext p =
     (let base = rev (takeWhile (\<lambda>c. c \<noteq> CHR ''/'') (rev p));
          ext = rev (takeWhile (\<lambda>c. c \<noteq> CHR ''.'') (rev base))
      in if CHR ''.'' \<in> set base
            \<and> (\<exists>c \<in> set (take (length base - length ext - 1) base). c \<noteq> CHR ''.'')
         then (take (length p - length ext - 1) p, drop (length p - length ext - 1) p)
         else (p, []))"

text \<open>
  A file opened with \<open>open(path, 'r')\<close> is read in text mode with universal
  newlines: a carriage return followed by a line feed, and a carriage return alone, reach
  the program as one line feed.
\<close>

fun universal_newlines :: "string \<Rightarrow> string" where
  "universal_newlines [] = []"
| "universal_newlines [c] = [if c = CHR 0x0D then CHR 0x0A else c]"
| "universal_newlines (c # d # cs) =
     (if c = CHR 0x0D \<and> d = CHR 0x0A then CHR 0x0A # universal_newlines cs
      else if c = CHR 0x0D then CHR 0x0A # universal_newlines (d # cs)
      else c # universal_newlines (d # cs))"

text \<open>
  \<open>f.readlines()\<close> and iterating over a file, on the decoded text of the file: the
  lines, each with its line feed, the last one without when the text does not end in one.
\<close>

primrec lines_from :: "string \<Rightarrow> string \<Rightarrow> string list" where
  "lines_from l [] = (if l = [] then [] else [l])"
| "lines_from l (c # cs) =
     (if c = CHR 0x0A then (l @ [c]) # lines_from [] cs else lines_from (l @ [c]) cs)"

definition readlines :: "string \<Rightarrow> string list" where
  "readlines s = lines_from [] (universal_newlines s)"

text \<open>
  \<open>re.split(',|\s', s)\<close>: \<open>s\<close> cut at every comma and every whitespace
  character, empty fields kept.
\<close>

primrec resplit_from :: "string \<Rightarrow> string \<Rightarrow> string list" where
  "resplit_from w [] = [w]"
| "resplit_from w (c # cs) =
     (if c = CHR '','' \<or> isspace c then w # resplit_from [] cs else resplit_from (w @ [c]) cs)"

definition re_split :: "string \<Rightarrow> string list" where
  "re_split s = resplit_from [] s"

definition startswith :: "string \<Rightarrow> string \<Rightarrow> bool" where
  "startswith s p = (take (length p) s = p)"

text \<open>
  A dictionary from strings to strings is the list of its items in iteration order, its
  keys distinct. \<open>dict_set k v d\<close> is \<open>d[k] = v\<close>.
\<close>

type_synonym dict = "(string \<times> string) list"

fun dict_set :: "string \<Rightarrow> string \<Rightarrow> dict \<Rightarrow> dict" where
  "dict_set k v [] = [(k, v)]"
| "dict_set k v ((k', v') # d) = (if k' = k then (k, v) # d else (k', v') # dict_set k v d)"

section \<open>utils.py: what the metadata functions take from their platform\<close>

text \<open>
  A file holds bytes, and \<open>open(path, 'r')\<close> and \<open>open(path, 'w')\<close> read and write
  text in the encoding of the locale. That encoding is a parameter: \<open>decode\<close> gives
  the text of the bytes of a file, or \<open>None\<close> where Python raises
  \<open>UnicodeDecodeError\<close>; \<open>encode\<close> gives the bytes of a text, or \<open>None\<close> where
  Python raises \<open>UnicodeEncodeError\<close>. \<open>open_error path\<close> and \<open>decode_error bytes\<close>
  are the texts \<open>str(e)\<close> of the exception of a failed \<open>open\<close> and of a failed
  decoding. Writing on a POSIX system translates no line feed.

  \<open>dashboard.dash_found\<close> is not defined in \<open>dashboard.py\<close> as given, and
  neither are \<open>get_default_user\<close>, \<open>get_subject\<close> and \<open>get_scan\<close>, through
  which \<open>_update_qc_reviewers\<close> and \<open>_update_scan_checklist\<close> work on the
  dashboard. They are parameters as well: the flag, and what the two functions end in
  (an exception, or a return) for the entries they are given.
\<close>

record platform =
  decode :: "string \<Rightarrow> string option"
  encode :: "string \<Rightarrow> string option"
  open_error :: "string \<Rightarrow> string"
  decode_error :: "string \<Rightarrow> string"
  dash_found :: bool
  update_qc_reviewers :: "dict \<Rightarrow> exn + unit"
  update_scan_checklist :: "dict \<Rightarrow> exn + unit"

text \<open>
  \<open>write_metadata(lines, path)\<close> on lines of text. \<open>writelines\<close> encodes line by
  line; when a line cannot be encoded the exception is raised inside the \<open>try\<close> of
  \<open>write_metadata\<close> after the file was opened and truncated, closing the file flushes
  the bytes of the lines before it, and the attempt has failed like any other. So with
  such a line every attempt fails: as the environment says when \<open>open\<close> fails, and
  otherwise leaving the bytes of the lines before the first that cannot be encoded.
\<close>

definition encoded :: "platform \<Rightarrow> string list \<Rightarrow> string list" where
  "encoded pl lines =
     map (\<lambda>l. the (encode pl l)) (takeWhile (\<lambda>l. encode pl l \<noteq> None) lines)"

definition write_lines ::
  "platform \<Rightarrow> (nat \<Rightarrow> attempt) \<Rightarrow> string list \<Rightarrow> string \<Rightarrow> nat \<times> io_event list \<times> filesystem
     \<Rightarrow> ((exn + unit) \<times> nat \<times> io_event list \<times> filesystem) option" where
  "write_lines pl att lines path st =
     (if list_all (\<lambda>l. encode pl l \<noteq> None) lines then
        write_metadata att (encoded pl lines) path 3 st
      else
        write_metadata
          (\<lambda>k. case att k of
                  Succeeds \<Rightarrow> Fails (Some (concat (encoded pl lines)))
                | Fails c \<Rightarrow> Fails c)
          (encoded pl lines) path 3 st)"

section \<open>utils.py: the checklist file\<close>

text \<open>
  \<open>_parse_checklist\<close> and \<open>_parse_blacklist\<close> return a dictionary, or (when asked
  for one subject or one scan) a comment or \<open>None\<close>.
\<close>

datatype parsed = Entries dict | Comment "string option"

text \<open>
  One turn of the loop of \<open>_parse_checklist\<close>: the entries to go on with (\<open>Inl\<close>),
  or the comment returned for the subject asked for (\<open>Inr\<close>). \<open>parse\<close> is
  \<open>datman.scanid.parse\<close>. In the mode for one subject \<open>entries\<close> is \<open>None\<close> in
  the source and stays empty here. The messages the parser sends to the logger are left
  out.
  \<^verbatim>\<open>
    for line in checklist.readlines():
        fields = line.split()
        if not fields:
            # Ignore blank lines
            continue
        try:
            subid = os.path.splitext(fields[0].replace('qc_', ''))[0]
        except:
            raise MetadataException("Found malformed checklist entry: {}".format(line))
        try:
            datman.scanid.parse(subid)
        except:
            logger.error(...)
            continue
        if entries and subid in entries:
            logger.info(...)
            continue
        comment = " ".join(fields[1:]).strip()
        if subject:
            if subid != subject:
                continue
            return comment
        else:
            entries[subid] = comment
    return entries
  \<close>
\<close>

definition checklist_step ::
  "(string \<Rightarrow> ident option) \<Rightarrow> string option \<Rightarrow> string \<Rightarrow> dict \<Rightarrow> dict + string" where
  "checklist_step parse subject line entries =
     (let fields = str_split line in
      if fields = [] then Inl entries
      else
        let subid = fst (splitext (str_replace ''qc_'' [] (hd fields))) in
        if parse subid = None then Inl entries
        else if entries \<noteq> [] \<and> subid \<in> set (map fst entries) then Inl entries
        else
          let comment = str_strip (str_join '' '' (tl fields)) in
          if truthy subject then (if subid \<noteq> the subject then Inl entries else Inr comment)
          else Inl (dict_set subid comment entries))"

fun parse_checklist ::
  "(string \<Rightarrow> ident option) \<Rightarrow> string option \<Rightarrow> dict \<Rightarrow> string list \<Rightarrow> parsed" where
  "parse_checklist parse subject entries [] =
     (if truthy subject then Comment None else Entries entries)"
| "parse_checklist parse subject entries (line # rest) =
     (case checklist_step parse subject line entries of
        Inr comment \<Rightarrow> Comment (Some comment)
      | Inl entries' \<Rightarrow> parse_checklist parse subject entries' rest)"

text \<open>
  \<open>read_checklist(path=path)\<close>, no study, subject or configuration given. A non-empty
  path bypasses the dashboard. A file that cannot be opened (there is none at the path),
  or whose bytes cannot be decoded, is a \<open>MetadataException\<close> with the reason.
  \<^verbatim>\<open>
    if not (study or subject or config or path):
        raise MetadataException("Can't read dashboard checklist "
                "contents without either 1) a subject or study ID 2) a "
                "datman.config object or 3) a full path to the checklist")
    ...
    if dashboard.dash_found and not path:
        ...
    checklist_path = locate_metadata('checklist.csv', path=path, ...)
    try:
        with open(checklist_path, 'r') as checklist:
            entries = _parse_checklist(checklist, subject=subject)
    except Exception as e:
        raise MetadataException("Failed to read checklist file "
                "{}. Reason - {}".format(checklist_path, str(e)))
    return entries
  \<close>
\<close>

definition read_checklist ::
  "platform \<Rightarrow> (string \<Rightarrow> ident option) \<Rightarrow> string \<Rightarrow> filesystem \<Rightarrow> exn + parsed" where
  "read_checklist pl parse path fs =
     (if path = [] then
        Inl (MetadataException
               (''Can't read dashboard checklist contents without either 1) a subject or ''
                @ ''study ID 2) a datman.config object or 3) a full path to the checklist''))
      else case fs path of
        None \<Rightarrow>
          Inl (MetadataException
                 (''Failed to read checklist file '' @ path @ ''. Reason - ''
                  @ open_error pl path))
      | Some bytes \<Rightarrow>
          (case decode pl bytes of
             None \<Rightarrow>
               Inl (MetadataException
                      (''Failed to read checklist file '' @ path @ ''. Reason - ''
                       @ decode_error pl bytes))
           | Some s \<Rightarrow> Inr (parse_checklist parse None [] (readlines s))))"

text \<open>
  The merge loop of \<open>update_checklist\<close>, over the keys of \<open>entries\<close>. The loop
  variable is overwritten with the canonical identifier before \<open>entries\<close> is indexed
  with it, so a key that is not its own canonical form ends in a \<open>KeyError\<close>.
  \<^verbatim>\<open>
    for subject in entries:
        try:
            ident = datman.scanid.parse(subject)
        except:
            raise MetadataException("Attempt to add invalid subject ID {} to "
                    "QC checklist".format(subject))
        subject = ident.get_full_subjectid_with_timepoint()
        old_entries[subject] = entries[subject]
  \<close>
\<close>

fun merge_checklist ::
  "(string \<Rightarrow> ident option) \<Rightarrow> dict \<Rightarrow> string list \<Rightarrow> dict \<Rightarrow> exn + dict" where
  "merge_checklist parse entries [] old_entries = Inr old_entries"
| "merge_checklist parse entries (subject # rest) old_entries =
     (case parse subject of
        None \<Rightarrow> Inl (MetadataException
                    (''Attempt to add invalid subject ID '' @ subject @ '' to QC checklist''))
      | Some ident \<Rightarrow>
          let subject' = id_full_subjectid_with_timepoint ident in
          case map_of entries subject' of
            None \<Rightarrow> Inl (KeyError subject')
          | Some v \<Rightarrow> merge_checklist parse entries rest (dict_set subject' v old_entries))"

text \<open>\<open>"qc_{}.html {}\n".format(sub, old_entries[sub])\<close>\<close>

definition checklist_line :: "string \<times> string \<Rightarrow> string" where
  "checklist_line e = ''qc_'' @ fst e @ ''.html '' @ snd e @ [CHR 0x0A]"

text \<open>
  \<open>update_checklist(entries, path=path)\<close>, no study or configuration given. With an
  empty path the update goes to the dashboard when there is one, and otherwise
  \<open>locate_metadata\<close> raises.
  \<^verbatim>\<open>
    if dashboard.dash_found and not path:
        _update_qc_reviewers(entries)
        return
    checklist_path = locate_metadata('checklist.csv', study=study, config=config, path=path)
    old_entries = read_checklist(path=checklist_path)
    for subject in entries: ...
    lines = ["qc_{}.html {}\n".format(sub, old_entries[sub]) for sub in old_entries]
    write_metadata(sorted(lines), checklist_path)

  def locate_metadata(filename, study=None, subject=None, config=None, path=None):
      if not (path or study or config or subject):
          raise MetadataException("Can't locate metadata file {} without either "
                  "1) a full path to the file 2) a study or subject ID or "
                  "3) a datman.config object".format(filename))
      if path:
          file_path = path
      ...
      return file_path
  \<close>
\<close>

definition locate_metadata_error :: "string \<Rightarrow> exn" where
  "locate_metadata_error filename =
     MetadataException
       (''Can't locate metadata file '' @ filename @ '' without either 1) a full path to ''
        @ ''the file 2) a study or subject ID or 3) a datman.config object'')"

definition update_checklist ::
  "platform \<Rightarrow> (string \<Rightarrow> ident option) \<Rightarrow> (nat \<Rightarrow> attempt) \<Rightarrow> dict \<Rightarrow> string
     \<Rightarrow> nat \<times> io_event list \<times> filesystem
     \<Rightarrow> ((exn + unit) \<times> nat \<times> io_event list \<times> filesystem) option" where
  "update_checklist pl parse att entries path st =
     (if path = [] then
        (if dash_found pl then Some (update_qc_reviewers pl entries, st)
         else Some (Inl (locate_metadata_error ''checklist.csv''), st))
      else case read_checklist pl parse path (snd (snd st)) of
        Inl x \<Rightarrow> Some (Inl x, st)
      | Inr (Comment c) \<Rightarrow> Some (Inl TypeError, st)
      | Inr (Entries old_entries) \<Rightarrow>
          (case merge_checklist parse entries (map fst entries) old_entries of
             Inl x \<Rightarrow> Some (Inl x, st)
           | Inr merged \<Rightarrow> write_lines pl att (sort (map checklist_line merged)) path st))"

section \<open>utils.py: the blacklist file\<close>

type_synonym parse_filename = "string \<Rightarrow> (ident \<times> string \<times> string \<times> string) option"

text \<open>
  One turn of the loop of \<open>_parse_blacklist\<close>; \<open>parse_filename\<close> is
  \<open>datman.scanid.parse_filename\<close>. \<open>re.split\<close> returns at least one field, so
  \<open>fields[0]\<close> is there. The messages the parser sends to the logger (all of level
  \<open>info\<close>) are left out.
  \<^verbatim>\<open>
    regex = ',|\s'
    for line in blacklist:
        fields = re.split(regex, line.strip())
        try:
            scan_name = fields[0]
            datman.scanid.parse_filename(scan_name)
            comment = fields[1:]
        except:
            logger.info("Ignoring malformed line: {}".format(line))
            continue
        comment = " ".join(comment).strip()
        if scan_name == 'series':
            continue
        if scan:
            if scan_name == scan:
                return comment
            continue
        if subject and not scan_name.startswith(subject):
            continue
        if entries and scan_name in entries:
            logger.info(...)
            continue
        entries[scan_name] = comment
    return entries
  \<close>
\<close>

definition blacklist_step ::
  "parse_filename \<Rightarrow> string option \<Rightarrow> string option \<Rightarrow> string \<Rightarrow> dict \<Rightarrow> dict + string" where
  "blacklist_step parse_filename scan subject line entries =
     (let fields = re_split (str_strip line);
          name = hd fields
      in if parse_filename name = None then Inl entries
         else
           let comment = str_strip (str_join '' '' (tl fields)) in
           if name = ''series'' then Inl entries
           else if truthy scan then (if name = the scan then Inr comment else Inl entries)
           else if truthy subject \<and> \<not> startswith name (the subject) then Inl entries
           else if entries \<noteq> [] \<and> name \<in> set (map fst entries) then Inl entries
           else Inl (dict_set name comment entries))"

fun parse_blacklist ::
  "parse_filename \<Rightarrow> string option \<Rightarrow> string option \<Rightarrow> dict \<Rightarrow> string list \<Rightarrow> parsed" where
  "parse_blacklist parse_filename scan subject entries [] =
     (if truthy scan then Comment None else Entries entries)"
| "parse_blacklist parse_filename scan subject entries (line # rest) =
     (case blacklist_step parse_filename scan subject line entries of
        Inr comment \<Rightarrow> Comment (Some comment)
      | Inl entries' \<Rightarrow> parse_blacklist parse_filename scan subject entries' rest)"

text \<open>
  \<open>read_blacklist(path=path)\<close>, nothing else given. With an empty path the dashboard
  branch raises when there is a dashboard, and \<open>locate_metadata\<close> raises otherwise.
  The message of a failed read says \<open>checklist\<close> in the source.
  \<^verbatim>\<open>
    if dashboard.dash_found and not path:
        return _fetch_blacklist(scan=scan, subject=subject, study=study, config=config)
    ...
    blacklist_path = locate_metadata("blacklist.csv", study=study, subject=tmp_sub,
            config=config, path=path)
    try:
        with open(blacklist_path, 'r') as blacklist:
            entries = _parse_blacklist(blacklist, scan=scan, subject=subject)
    except Exception as e:
        raise MetadataException("Failed to read checklist file {}. Reason - "
                "{}".format(blacklist_path, str(e)))
    return entries

  def _fetch_blacklist(scan=None, subject=None, study=None, config=None):
      if not (scan or subject or study or config):
          raise MetadataException("Can't retrieve dashboard blacklist info "
              "without either 1) a scan name 2) a subject ID 3) a study ID or "
              "4) a datman config object")
  \<close>
\<close>

definition read_blacklist ::
  "platform \<Rightarrow> parse_filename \<Rightarrow> string \<Rightarrow> filesystem \<Rightarrow> exn + parsed" where
  "read_blacklist pl parse_filename path fs =
     (if path = [] then
        (if dash_found pl then
           Inl (MetadataException
                  (''Can't retrieve dashboard blacklist info without either 1) a scan name ''
                   @ ''2) a subject ID 3) a study ID or 4) a datman config object''))
         else Inl (locate_metadata_error ''blacklist.csv''))
      else case fs path of
        None \<Rightarrow>
          Inl (MetadataException
                 (''Failed to read checklist file '' @ path @ ''. Reason - ''
                  @ open_error pl path))
      | Some bytes \<Rightarrow>
          (case decode pl bytes of
             None \<Rightarrow>
               Inl (MetadataException
                      (''Failed to read checklist file '' @ path @ ''. Reason - ''
                       @ decode_error pl bytes))
           | Some s \<Rightarrow>
               Inr (parse_blacklist parse_filename None None [] (readlines s))))"

text \<open>
  The merge loop of \<open>update_blacklist\<close>, over the keys of \<open>entries\<close>, with the
  messages logged so far and the merged entries as state. When the loop raises, what it
  has logged before stays logged.
  \<^verbatim>\<open>
    for scan_name in entries:
        try:
            datman.scanid.parse_filename(scan_name)
        except:
            raise MetadataException("Attempt to add invalid scan name {} "
                    "to blacklist".format(scan_name))
        if not entries[scan_name]:
            logger.error("Can't add blacklist entry with empty comment. "
                    "Skipping {}".format(scan_name))
            continue
        old_entries[scan_name] = entries[scan_name]
  \<close>
\<close>

fun merge_blacklist ::
  "parse_filename \<Rightarrow> dict \<Rightarrow> string list \<Rightarrow> log_event list \<times> dict
     \<Rightarrow> log_event list \<times> (exn + dict)" where
  "merge_blacklist parse_filename entries [] acc = (fst acc, Inr (snd acc))"
| "merge_blacklist parse_filename entries (name # rest) acc =
     (if parse_filename name = None then
        (fst acc,
         Inl (MetadataException (''Attempt to add invalid scan name '' @ name @ '' to blacklist'')))
      else case map_of entries name of
        None \<Rightarrow> (fst acc, Inl (KeyError name))
      | Some reason \<Rightarrow>
          if reason = [] then
            merge_blacklist parse_filename entries rest
              (fst acc @ [Skipping_empty_blacklist_comment name], snd acc)
          else merge_blacklist parse_filename entries rest
                 (fst acc, dict_set name reason (snd acc)))"

text \<open>\<open>"{} {}\n".format(sub, old_entries[sub])\<close> and the header \<open>'series\treason\n'\<close>.\<close>

definition blacklist_line :: "string \<times> string \<Rightarrow> string" where
  "blacklist_line e = fst e @ '' '' @ snd e @ [CHR 0x0A]"

definition blacklist_header :: string where
  "blacklist_header = ''series'' @ [CHR 0x09] @ ''reason'' @ [CHR 0x0A]"

text \<open>
  \<open>update_blacklist(entries, path=path)\<close>, no study or configuration given. The
  result carries the messages of level \<open>error\<close> that \<open>update_blacklist\<close> itself
  logs; those of \<open>write_metadata\<close> are in the trace.
  \<^verbatim>\<open>
    if dashboard.dash_found and not path:
        _update_scan_checklist(entries)
        return
    blacklist_path = locate_metadata('blacklist.csv', study=study, config=config, path=path)
    old_entries = read_blacklist(path=blacklist_path)
    for scan_name in entries: ...
    lines = ["{} {}\n".format(sub, old_entries[sub]) for sub in old_entries]
    new_list = ['series\treason\n']
    new_list.extend(sorted(lines))
    write_metadata(new_list, blacklist_path)
  \<close>
\<close>

definition update_blacklist ::
  "platform \<Rightarrow> parse_filename \<Rightarrow> (nat \<Rightarrow> attempt) \<Rightarrow> dict \<Rightarrow> string
     \<Rightarrow> nat \<times> io_event list \<times> filesystem
     \<Rightarrow> (log_event list \<times> (exn + unit) \<times> nat \<times> io_event list \<times> filesystem) option" where
  "update_blacklist pl parse_filename att entries path st =
     (if path = [] then
        (if dash_found pl then Some ([], update_scan_checklist pl entries, st)
         else Some ([], Inl (locate_metadata_error ''blacklist.csv''), st))
      else case read_blacklist pl parse_filename path (snd (snd st)) of
        Inl x \<Rightarrow> Some ([], Inl x, st)
      | Inr (Comment c) \<Rightarrow> Some ([], Inl TypeError, st)
      | Inr (Entries old_entries) \<Rightarrow>
          (case merge_blacklist parse_filename entries (map fst entries) ([], old_entries) of
             (lg, Inl x) \<Rightarrow> Some (lg, Inl x, st)
           | (lg, Inr merged) \<Rightarrow>
               map_option (Pair lg)
                 (write_lines pl att (blacklist_header # sort (map blacklist_line merged))
                    path st)))"

section \<open>utils.py: get_subject_metadata\<close>

text \<open>\<open>all_qc[subid].append(bl_entry)\<close>\<close>

definition append_at ::
  "string \<Rightarrow> string \<Rightarrow> (string \<times> string list) list \<Rightarrow> (string \<times> string list) list" where
  "append_at k x d = map (\<lambda>(k', xs). if k' = k then (k', xs @ [x]) else (k', xs)) d"

text \<open>
  The loop over the blacklist, with the log and \<open>all_qc\<close> as state.
  \<^verbatim>\<open>
    for bl_entry in blacklist:
        try:
            ident, _, _, _ = datman.scanid.parse_filename(bl_entry)
        except:
            logger.error("Malformed scan name {} found in blacklist. "
                    "Ignoring.".format(bl_entry))
            continue
        subid = ident.get_full_subjectid_with_timepoint()
        try:
            all_qc[subid]
        except KeyError:
            logger.error("{} has blacklisted series {} but does not "
                    "appear in QC checklist. Ignoring blacklist entry".format(subid, bl_entry))
            continue
        all_qc[subid].append(bl_entry)
  \<close>
\<close>

fun blacklist_into_qc ::
  "parse_filename \<Rightarrow> string list \<Rightarrow> log_event list \<times> (string \<times> string list) list
     \<Rightarrow> log_event list \<times> (string \<times> string list) list" where
  "blacklist_into_qc parse_filename [] acc = acc"
| "blacklist_into_qc parse_filename (bl_entry # rest) acc =
     (case parse_filename bl_entry of
        None \<Rightarrow> blacklist_into_qc parse_filename rest (fst acc @ [Malformed_scan_name bl_entry], snd acc)
      | Some (ident, tag, series, descr) \<Rightarrow>
          let subid = id_full_subjectid_with_timepoint ident in
          if subid \<notin> set (map fst (snd acc)) then
            blacklist_into_qc parse_filename rest
              (fst acc @ [Blacklisted_not_in_checklist subid bl_entry], snd acc)
          else blacklist_into_qc parse_filename rest (fst acc, append_at subid bl_entry (snd acc)))"

text \<open>
  \<open>config_or_study\<close> says whether a configuration or a study name was given;
  \<open>checklist\<close> and \<open>blacklist\<close> are the outcomes of \<open>read_checklist(config=config)\<close>
  and \<open>read_blacklist(config=config)\<close>, which go to the dashboard or to the files of
  the study.
  \<^verbatim>\<open>
  def get_subject_metadata(config=None, study=None):
      if not config:
          if not study:
              raise MetadataException("A study name or config object must be "
                      "given to locate study metadata.")
          config = datman.config.config(study=study)
      checklist = read_checklist(config=config)
      blacklist = read_blacklist(config=config)
      all_qc = {subid: [] for subid in checklist if checklist[subid]}
      for bl_entry in blacklist: ...
      return all_qc
  \<close>
\<close>

definition get_subject_metadata ::
  "parse_filename \<Rightarrow> bool \<Rightarrow> exn + dict \<Rightarrow> exn + dict
     \<Rightarrow> log_event list \<times> (exn + (string \<times> string list) list)" where
  "get_subject_metadata parse_filename config_or_study checklist blacklist =
     (if \<not> config_or_study then
        ([], Inl (MetadataException
                   ''A study name or config object must be given to locate study metadata.''))
      else case checklist of
        Inl x \<Rightarrow> ([], Inl x)
      | Inr cl \<Rightarrow>
          (case blacklist of
             Inl x \<Rightarrow> ([], Inl x)
           | Inr bl \<Rightarrow>
               let all_qc = map (\<lambda>(subid, c). (subid, [])) (filter (\<lambda>(subid, c). c \<noteq> []) cl);
                   (lg, qc) = blacklist_into_qc parse_filename (map fst bl) ([], all_qc)
               in (lg, Inr qc)))"

text \<open>
  For stating what the loop computes: the subject a blacklist entry belongs to, and what
  the loop logs for one entry when \<open>keys\<close> are the keys of \<open>all_qc\<close>.
\<close>

definition subid_of :: "parse_filename \<Rightarrow> string \<Rightarrow> string option" where
  "subid_of pf b = map_option (\<lambda>r. id_full_subjectid_with_timepoint (fst r)) (pf b)"

definition qc_log :: "parse_filename \<Rightarrow> string list \<Rightarrow> string \<Rightarrow> log_event list" where
  "qc_log pf keys b =
     (case pf b of
        None \<Rightarrow> [Malformed_scan_name b]
      | Some r \<Rightarrow>
          if id_full_subjectid_with_timepoint (fst r) \<in> set keys then []
          else [Blacklisted_not_in_checklist (id_full_subjectid_with_timepoint (fst r)) b])"

section \<open>dm-proc-enigma.py: the submission driver\<close>

text \<open>
  \<open>os.path.join\<close> of two components (a join of more is the join of the joins),
  \<open>os.path.basename\<close>, and the substring test \<open>sub in s\<close>.
\<close>

definition path_join :: "string \<Rightarrow> string \<Rightarrow> string" where
  "path_join a b =
     (if b \<noteq> [] \<and> hd b = CHR ''/'' then b
      else if a = [] \<or> last a = CHR ''/'' then a @ b
      else a @ ''/'' @ b)"

definition basename :: "string \<Rightarrow> string" where
  "basename p = rev (takeWhile (\<lambda>c. c \<noteq> CHR ''/'') (rev p))"

fun is_substring :: "string \<Rightarrow> string \<Rightarrow> bool" where
  "is_substring sub [] = (sub = [])"
| "is_substring sub (c # cs) = (take (length sub) (c # cs) = sub \<or> is_substring sub cs)"

text \<open>
  What a run can change: the regular files (their bytes) and their modes, the
  directories, and the commands started through \<open>utils.run\<close>; \<open>skipped\<close> are the
  commands a dry run only logs. A row of the ENIGMA checklist is a record of its six
  columns, an empty cell (\<open>NaN\<close>) being \<open>None\<close>.
\<close>

record world =
  files :: filesystem
  modes :: "string \<rightharpoonup> nat"
  dirs :: "string list"
  executed :: "string list"
  skipped :: "string list"

record checklist_row =
  row_id :: string
  FA_nii :: "string option"
  date_ran :: "string option"
  qc_rator :: "string option"
  qc_rating :: "string option"
  row_notes :: "string option"

text \<open>
  The command line options the driver reads, and what it gets from outside these
  sources. From \<open>datman.config\<close> and \<open>datman.proc\<close>, which are not among them: the
  two paths and the study tag, the subject list, the checklist as loaded and filled in
  with the FA images (a frame indexed from 0, here the list of its rows), and the two
  command builders, each giving the command as the string \<open>utils.run\<close> works on. From
  Python and the operating system: the clock, \<open>os.path.normpath\<close>,
  \<open>DataFrame.to_csv\<close> (by the bytes it writes), the encoding of the locale,
  \<open>refuses path\<close>, which says that the system refuses to make a directory or to open
  a file for writing at the path (the call raises \<open>OSError\<close>), and
  \<open>mtime_matches path\<close>, which says that the file at the path carries the
  modification time that the temporary copy made by \<open>check_runsh\<close> gets.
\<close>

record enigma_args =
  POST_ONLY :: bool
  NO_POST :: bool
  DRYRUN :: bool
  CALC_MD :: bool
  CALC_ALL :: bool
  debug :: bool
  subject_filter :: "string option"
  walltime :: string
  walltime_post :: string

record enigma_env =
  input_dir :: string
  output_dir :: string
  study_tag :: string
  subjects :: "string list"
  found_checklist :: "checklist_row list"
  timestamp :: string
  today :: string
  temp_dir :: string
  make_file_qbatch_command :: "string \<Rightarrow> string \<Rightarrow> string \<Rightarrow> string \<Rightarrow> string"
  make_piped_qbatch_command :: "string \<Rightarrow> string \<Rightarrow> string \<Rightarrow> string \<Rightarrow> string \<Rightarrow> string"
  normpath :: "string \<Rightarrow> string"
  to_csv :: "checklist_row list \<Rightarrow> string"
  encoding :: platform
  refuses :: "string \<Rightarrow> bool"
  mtime_matches :: "string \<Rightarrow> bool"

text \<open>
  How a call ends: it returns, it leaves through \<open>sys.exit\<close> (with the exit code or
  the message as text), or it raises. An \<open>OSError\<close> is \<open>ExternalError\<close>; a
  \<open>UnicodeEncodeError\<close> or \<open>UnicodeDecodeError\<close> is a \<open>ValueError\<close>.
\<close>

datatype outcome = Returned | SystemExit string | Raised exn

text \<open>
  \<^verbatim>\<open>
  def makedirs(path):
      if not os.path.exists(path):
          os.makedirs(path)
  \<close>
\<close>

definition makedirs :: "enigma_env \<Rightarrow> string \<Rightarrow> world \<Rightarrow> outcome \<times> world" where
  "makedirs e path w =
     (if path \<in> set (dirs w) \<or> files w path \<noteq> None then (Returned, w)
      else if refuses e path then (Raised ExternalError, w)
      else (Returned, w\<lparr>dirs := dirs w @ [path]\<rparr>))"

text \<open>
  \<open>utils.run(cmd, dryrun)\<close> for a command given as a string; the driver does not
  look at what it returns.
  \<^verbatim>\<open>
  def run(cmd, dryrun=False, specialquote=True, verbose=True):
      if isinstance(cmd, list):
          cmd = " ".join(cmd)
      if specialquote:
          cmd = _escape_shell_chars(cmd)
      if dryrun:
          logger.info("Performing dry-run. Skipped command: {}".format(cmd))
          return 0, ''
      logger.debug("Executing command: {}".format(cmd))
      p = proc.Popen(cmd, shell=True, stdout=proc.PIPE, stderr=proc.PIPE)
      out, err = p.communicate()
      if p.returncode and verbose:
          logger.error(...)
      return p.returncode, out

  def _escape_shell_chars(arg):
      arg = arg.replace('(', '\\(')
      arg = arg.replace(';', '\\;')
      arg = arg.replace(')', '\\)')
      return(arg)
  \<close>
\<close>

definition escape_shell_chars :: "string \<Rightarrow> string" where
  "escape_shell_chars arg =
     str_replace '')'' [CHR 0x5C, CHR '')'']
       (str_replace '';'' [CHR 0x5C, CHR '';'']
         (str_replace ''('' [CHR 0x5C, CHR ''(''] arg))"

definition run :: "string \<Rightarrow> bool \<Rightarrow> world \<Rightarrow> world" where
  "run cmd dryrun w =
     (if dryrun then w\<lparr>skipped := skipped w @ [escape_shell_chars cmd]\<rparr>
      else w\<lparr>executed := executed w @ [escape_shell_chars cmd]\<rparr>)"

text \<open>
  The texts \<open>write_run_script\<close> writes, one for each call of \<open>enigmash.write\<close>:
  the three of the head, and those that follow for a file of the given base name, or
  \<open>None\<close> when the name is neither of the two script names and \<open>ENGIMASTEP\<close>
  stays unbound.
  \<^verbatim>\<open>
    bname = os.path.basename(filename)
    if bname == 'run_engimadti.sh':
        ENGIMASTEP = 'doInd'
    if bname == 'concatresults.sh':
        ENGIMASTEP = 'concat'
    enigmash = open(filename,'w')
    enigmash.write('#!/bin/bash\n\n')
    enigmash.write('## this script was created by dm-proc-engima.py\n\n')
    enigmash.write('## Prints loaded modules to the log\nmodule list\n\n')
    if ENGIMASTEP == 'doInd':
        enigmash.write('OUTDIR=${1}\n')
        enigmash.write('FAMAP=${2}\n')
        enigmash.write('\ndoInd-enigma-dti.py ')
        if CALC_MD: enigmash.write('--calc-MD ')
        if CALC_ALL: enigmash.write('--calc-all ')
        enigmash.write('${OUTDIR} ${FAMAP} \n')
    if ENGIMASTEP == 'concat':
        enigmash.write('OUTDIR=' + output_dir + ' \n')
        enigmash.write('\ndm-proc-enigma-concat.py ${OUTDIR} "FA"'
                '"${OUTDIR}/enigmaDTI-FA-results.csv"\n')
        if CALC_MD | CALC_ALL:
             enigmash.write('\ndm-proc-enigma-concat.py ${OUTDIR} "MD"'
                    '"${OUTDIR}/enigmaDTI-MD-results.csv"\n')
        if CALC_ALL:
             enigmash.write('\ndm-proc-enigma-concat.py ${OUTDIR} "AD"'
                    '"${OUTDIR}/enigmaDTI-AD-results.csv"\n')
             enigmash.write('\ndm-proc-enigma-concat.py ${OUTDIR} "RD"'
                    '"${OUTDIR}/enigmaDTI-RD-results.csv"\n')
        enigmash.write('\ndm-qc-enigma.py ')
        if CALC_MD: enigmash.write('--calc-MD ')
        if CALC_ALL: enigmash.write('--calc-all ')
        enigmash.write('${OUTDIR} \n')
    enigmash.close()
    os.chmod(filename, 0o755)
  \<close>
\<close>

definition script_head :: "string list" where
  "script_head =
     [''#!/bin/bash'' @ [CHR 0x0A, CHR 0x0A],
      ''## this script was created by dm-proc-engima.py'' @ [CHR 0x0A, CHR 0x0A],
      ''## Prints loaded modules to the log'' @ [CHR 0x0A] @ ''module list''
        @ [CHR 0x0A, CHR 0x0A]]"

definition concat_line :: "string \<Rightarrow> string" where
  "concat_line measure_name =
     [CHR 0x0A] @ ''dm-proc-enigma-concat.py ${OUTDIR} '' @ [CHR 0x22] @ measure_name @ [CHR 0x22]
     @ [CHR 0x22] @ ''${OUTDIR}/enigmaDTI-'' @ measure_name @ ''-results.csv'' @ [CHR 0x22]
     @ [CHR 0x0A]"

definition script_body :: "string \<Rightarrow> string \<Rightarrow> bool \<Rightarrow> bool \<Rightarrow> string list option" where
  "script_body bname out calc_md calc_all =
     (if bname = ''concatresults.sh'' then
        Some ([''OUTDIR='' @ out @ '' '' @ [CHR 0x0A], concat_line ''FA'']
              @ (if calc_md \<or> calc_all then [concat_line ''MD''] else [])
              @ (if calc_all then [concat_line ''AD'', concat_line ''RD''] else [])
              @ [[CHR 0x0A] @ ''dm-qc-enigma.py '']
              @ (if calc_md then [''--calc-MD ''] else [])
              @ (if calc_all then [''--calc-all ''] else [])
              @ [''${OUTDIR} '' @ [CHR 0x0A]])
      else if bname = ''run_engimadti.sh'' then
        Some ([''OUTDIR=${1}'' @ [CHR 0x0A], ''FAMAP=${2}'' @ [CHR 0x0A],
               [CHR 0x0A] @ ''doInd-enigma-dti.py '']
              @ (if calc_md then [''--calc-MD ''] else [])
              @ (if calc_all then [''--calc-all ''] else [])
              @ [''${OUTDIR} ${FAMAP} '' @ [CHR 0x0A]])
      else None)"

text \<open>
  What writing a script comes to: how the writing ends, the bytes that reach the file,
  and whether the mode is set. Each text is encoded as it is written; at the first that
  cannot be encoded the call raises, and the bytes of the texts before it are in the
  file.
\<close>

definition script_written ::
  "enigma_env \<Rightarrow> string \<Rightarrow> string \<Rightarrow> bool \<Rightarrow> bool \<Rightarrow> outcome \<times> string \<times> bool" where
  "script_written e bname out calc_md calc_all =
     (case script_body bname out calc_md calc_all of
        None \<Rightarrow>
          if list_all (\<lambda>t. encode (encoding e) t \<noteq> None) script_head
          then (Raised (UnboundLocalError ''ENGIMASTEP''),
                concat (encoded (encoding e) script_head), False)
          else (Raised ValueError, concat (encoded (encoding e) script_head), False)
      | Some body \<Rightarrow>
          if list_all (\<lambda>t. encode (encoding e) t \<noteq> None) (script_head @ body)
          then (Returned, concat (encoded (encoding e) (script_head @ body)), True)
          else (Raised ValueError, concat (encoded (encoding e) (script_head @ body)), False))"

definition write_run_script ::
  "enigma_env \<Rightarrow> string \<Rightarrow> string \<Rightarrow> bool \<Rightarrow> bool \<Rightarrow> world \<Rightarrow> outcome \<times> world" where
  "write_run_script e filename out calc_md calc_all w =
     (if refuses e filename then (Raised ExternalError, w)
      else case script_written e (basename filename) out calc_md calc_all of
        (x, bytes, chmod) \<Rightarrow>
          (x, w\<lparr>files := (files w)(filename \<mapsto> bytes),
                modes := (if chmod then (modes w)(filename \<mapsto> 493) else modes w)\<rparr>))"

text \<open>
  \<open>check_runsh\<close> writes the script again into a temporary directory of its own,
  compares it with the file that is there and removes the directory, so nothing of it
  stays. \<open>filecmp.cmp\<close> compares shallowly first: two regular files of the same size
  and modification time are taken as equal without being read. When the files differ,
  both are read as text for the message to the debug log, which raises when the bytes of
  the old file cannot be decoded.
  \<^verbatim>\<open>
    with make_temp_directory() as temp_dir:
        tmprunsh = os.path.join(temp_dir,os.path.basename(filename))
        write_run_script(tmprunsh, output_dir, CALC_MD, CALC_ALL)
        if filecmp.cmp(filename, tmprunsh):
            logger.debug("{} already written - using it".format(filename))
        else:
            ...
            with open(filename) as f1, open(tmprunsh) as f2:
                differ = difflib.Differ()
                logger.debug(''.join(differ.compare(f1.readlines(), f2.readlines())))
            sys.exit("\nOld {} doesn't match parameters of this run....Exiting".format(filename))
  \<close>
\<close>

definition check_runsh ::
  "enigma_env \<Rightarrow> string \<Rightarrow> string \<Rightarrow> bool \<Rightarrow> bool \<Rightarrow> world \<Rightarrow> outcome \<times> world" where
  "check_runsh e filename out calc_md calc_all w =
     (case script_written e (basename filename) out calc_md calc_all of
        (Returned, new, chmod) \<Rightarrow>
          (case files w filename of
             None \<Rightarrow> (Raised ExternalError, w)
           | Some old \<Rightarrow>
               if old = new \<or> (length old = length new \<and> mtime_matches e filename)
               then (Returned, w)
               else if decode (encoding e) old = None \<or> decode (encoding e) new = None
               then (Raised ValueError, w)
               else (SystemExit ([CHR 0x0A] @ ''Old '' @ filename
                                 @ '' doesn't match parameters of this run....Exiting''), w))
      | (x, new, chmod) \<Rightarrow> (x, w))"

text \<open>
  \<^verbatim>\<open>
  def write_run_scripts(script_names, run_dir, output_dir, CALC_MD, CALC_ALL, DEBUG):
      for name in script_names:
          runsh = os.path.join(run_dir, name)
          if os.path.isfile(runsh):
              ## create temporary run file and test it against the original
              check_runsh(runsh, output_dir, CALC_MD, CALC_ALL, DEBUG)
          else:
              ## if it doesn't exist, write it now
              write_run_script(runsh, output_dir, CALC_MD, CALC_ALL)
  \<close>
\<close>

definition write_or_check ::
  "enigma_env \<Rightarrow> string \<Rightarrow> string \<Rightarrow> bool \<Rightarrow> bool \<Rightarrow> world \<Rightarrow> outcome \<times> world" where
  "write_or_check e runsh out calc_md calc_all w =
     (if files w runsh \<noteq> None then check_runsh e runsh out calc_md calc_all w
      else write_run_script e runsh out calc_md calc_all w)"

fun write_run_scripts ::
  "enigma_env \<Rightarrow> string list \<Rightarrow> string \<Rightarrow> string \<Rightarrow> bool \<Rightarrow> bool \<Rightarrow> world \<Rightarrow> outcome \<times> world" where
  "write_run_scripts e [] run_dir out calc_md calc_all w = (Returned, w)"
| "write_run_scripts e (name # rest) run_dir out calc_md calc_all w =
     (case write_or_check e (path_join run_dir name) out calc_md calc_all w of
        (Returned, w') \<Rightarrow> write_run_scripts e rest run_dir out calc_md calc_all w'
      | (x, w') \<Rightarrow> (x, w'))"

text \<open>
  \<^verbatim>\<open>
  def subject_previously_completed(output_dir, subid, FA_img):
      edti_completed = os.path.join(output_dir, subid, 'ROI',
                                    '{}skel_ROIout_avg.csv'.format(
                                    FA_img.replace('.nii','').replace('.gz','')))
      if os.path.isfile(edti_completed):
          return True
      return False
  \<close>
\<close>

definition edti_completed :: "string \<Rightarrow> string \<Rightarrow> string \<Rightarrow> string" where
  "edti_completed out subid FA_img =
     path_join (path_join (path_join out subid) ''ROI'')
       (str_replace ''.gz'' [] (str_replace ''.nii'' [] FA_img) @ ''skel_ROIout_avg.csv'')"

definition subject_previously_completed :: "world \<Rightarrow> string \<Rightarrow> string \<Rightarrow> string \<Rightarrow> bool" where
  "subject_previously_completed w out subid FA_img =
     (files w (edti_completed out subid FA_img) \<noteq> None)"

text \<open>
  One row of the loop of \<open>main\<close>: the line written to the batch file, or \<open>None\<close>
  when the row is skipped.
  \<^verbatim>\<open>
                for i in range(0,len(checklist)):
                    subid = checklist['id'][i]
                    if subject_filter and subject_filter not in subid:
                        continue
                    if pd.isnull(checklist['FA_nii'][i]):
                        continue
                    smap = checklist['FA_nii'][i]
                    if subject_previously_completed(output_dir, subid, smap):
                        continue
                    cmdlist.write("bash -l {rundir}/{script} {output} {inputFA}\n".format(
                                    rundir = run_dir,
                                    script = script_names[0],
                                    output = os.path.join(output_dir,subid),
                                    inputFA = os.path.join(input_dir, subid, smap)))
                    ## add today's date to the checklist
                    checklist['date_ran'][i] = datetime.date.today()
                    submit_edti = True
  \<close>
\<close>

definition row_command ::
  "enigma_env \<Rightarrow> enigma_args \<Rightarrow> world \<Rightarrow> string \<Rightarrow> checklist_row \<Rightarrow> string option" where
  "row_command e a w run_dir r =
     (let subid = row_id r in
      if truthy (subject_filter a) \<and> \<not> is_substring (the (subject_filter a)) subid then None
      else case FA_nii r of
        None \<Rightarrow> None
      | Some smap \<Rightarrow>
          if subject_previously_completed w (output_dir e) subid smap then None
          else Some (''bash -l '' @ run_dir @ ''/'' @ ''run_engimadti.sh'' @ '' ''
                     @ path_join (output_dir e) subid @ '' ''
                     @ path_join (path_join (input_dir e) subid) smap @ [CHR 0x0A]))"

text \<open>
  The loop, from the row it stands at: the lines written to the batch file, the rows
  with the date of the queued ones set, \<open>submit_edti\<close>, and whether the loop came to
  its end; it does not when a line cannot be encoded and \<open>cmdlist.write\<close> raises.
\<close>

fun queue_rows ::
  "enigma_env \<Rightarrow> enigma_args \<Rightarrow> world \<Rightarrow> string \<Rightarrow> checklist_row list
     \<Rightarrow> string list \<times> checklist_row list \<times> bool \<times> bool" where
  "queue_rows e a w run_dir [] = ([], [], False, True)"
| "queue_rows e a w run_dir (r # rs) =
     (case row_command e a w run_dir r of
        None \<Rightarrow>
          (case queue_rows e a w run_dir rs of
             (ls, rs', submit_edti, ended) \<Rightarrow> (ls, r # rs', submit_edti, ended))
      | Some l \<Rightarrow>
          if encode (encoding e) l = None then ([], r # rs, False, False)
          else
            (case queue_rows e a w run_dir rs of
               (ls, rs', submit_edti, ended) \<Rightarrow>
                 (l # ls, r\<lparr>date_ran := Some (today e)\<rparr> # rs', True, ended)))"

text \<open>
  \<open>main\<close>, from the making of the output directories on. The batch file
  \<open>commands.txt\<close> lives in a temporary directory that is removed when the block ends,
  so its lines are a result of the model and not a file of the world. The result is how
  the run ends, the world after it and the lines written to the batch file.
  \<^verbatim>\<open>
    dm.utils.makedirs(log_dir)
    dm.utils.makedirs(run_dir)
    ...
    subjects = dm.proc.get_subject_list(input_dir, subject_filter, QC_file)
    if len(subjects) == 0:
        logger.info('No outstanding scans to process.')
        sys.exit(1)
    prefix = config.get_key('STUDY_TAG')
    script_names = ['run_engimadti.sh','concatresults.sh']
    write_run_scripts(script_names, run_dir, output_dir, CALC_MD, CALC_ALL, debug)
    checklist_file = os.path.normpath(output_dir + '/ENIGMA-DTI-checklist.csv')
    ...
    job_name_prefix="edti{}_{}".format(prefix,datetime.datetime.today().strftime("%Y%m%d-%H%M%S"))
    submit_edti = False
    os.chdir(run_dir)
    if not POST_ONLY:
        with make_temp_directory() as temp_dir:
            cmds_file = os.path.join(temp_dir,'commands.txt')
            with open(cmds_file, 'w') as cmdlist:
                for i in range(0,len(checklist)): ...
            if submit_edti:
                qbatch_run_cmd = dm.proc.make_file_qbatch_command(cmds_file,
                                                        job_name_prefix,
                                                        log_dir, walltime)
                os.chdir(run_dir)
                dm.utils.run(qbatch_run_cmd, DRYRUN)
    os.chdir(run_dir)
    post_edit_cmd = 'echo bash -l {rundir}/{script}'.format(
                    rundir = run_dir,
                    script = script_names[1])
    if submit_edti:
        qbatch_post_cmd = dm.proc.make_piped_qbatch_command(post_edit_cmd,
                                                '{}_post'.format(job_name_prefix),
                                                log_dir,
                                                walltime_post,
                                                afterok = job_name_prefix)
        dm.utils.run(qbatch_post_cmd, DRYRUN)
    if not DRYRUN:
        ## write the checklist out to a file
        checklist.to_csv(checklist_file, sep=',', index = False)
  \<close>
\<close>

definition job_name_prefix :: "enigma_env \<Rightarrow> string" where
  "job_name_prefix e = ''edti'' @ study_tag e @ ''_'' @ timestamp e"

definition qbatch_run_cmd :: "enigma_env \<Rightarrow> enigma_args \<Rightarrow> string" where
  "qbatch_run_cmd e a =
     make_file_qbatch_command e (path_join (temp_dir e) ''commands.txt'') (job_name_prefix e)
       (path_join (output_dir e) ''logs'') (walltime a)"

definition qbatch_post_cmd :: "enigma_env \<Rightarrow> enigma_args \<Rightarrow> string" where
  "qbatch_post_cmd e a =
     make_piped_qbatch_command e
       (''echo bash -l '' @ path_join (output_dir e) ''bin'' @ ''/'' @ ''concatresults.sh'')
       (job_name_prefix e @ ''_post'') (path_join (output_dir e) ''logs'') (walltime_post a)
       (job_name_prefix e)"

text \<open>
  The part of \<open>main\<close> after the run scripts are written and the checklist is loaded.
\<close>

definition submit ::
  "enigma_env \<Rightarrow> enigma_args \<Rightarrow> world \<Rightarrow> outcome \<times> world \<times> string list" where
  "submit e a w2 =
     (let run_dir = path_join (output_dir e) ''bin'';
          checklist_file = normpath e (output_dir e @ ''/ENIGMA-DTI-checklist.csv'');
          (lines, checklist, submit_edti, ended) =
             (if \<not> POST_ONLY a then queue_rows e a w2 run_dir (found_checklist e)
              else ([], found_checklist e, False, True))
      in if \<not> ended then (Raised ValueError, w2, lines)
         else
           let w3 = (if \<not> POST_ONLY a \<and> submit_edti
                     then run (qbatch_run_cmd e a) (DRYRUN a) w2 else w2);
               w4 = (if submit_edti then run (qbatch_post_cmd e a) (DRYRUN a) w3 else w3)
           in if DRYRUN a then (Returned, w4, lines)
              else if refuses e checklist_file then (Raised ExternalError, w4, lines)
              else (Returned,
                    w4\<lparr>files := (files w4)(checklist_file \<mapsto> to_csv e checklist)\<rparr>, lines))"

definition main :: "enigma_env \<Rightarrow> enigma_args \<Rightarrow> world \<Rightarrow> outcome \<times> world \<times> string list" where
  "main e a w =
     (let log_dir = path_join (output_dir e) ''logs'';
          run_dir = path_join (output_dir e) ''bin''
      in case makedirs e log_dir w of
           (Returned, w0) \<Rightarrow>
             (case makedirs e run_dir w0 of
                (Returned, w1) \<Rightarrow>
                  if subjects e = [] then (SystemExit ''1'', w1, [])
                  else
                    (case write_run_scripts e [''run_engimadti.sh'', ''concatresults.sh''] run_dir
                            (output_dir e) (CALC_MD a) (CALC_ALL a) w1 of
                       (Returned, w2) \<Rightarrow> submit e a w2
                     | (x, w2) \<Rightarrow> (x, w2, []))
              | (x, w1) \<Rightarrow> (x, w1, []))
         | (x, w0) \<Rightarrow> (x, w0, []))"

section \<open>dm-proc-enigma.py: a sample run\<close>

text \<open>
  A sample run, for the statements about single runs below: one subject with an FA image
  in the checklist, a command builder that names the job and the batch file, Latin-1 as
  the encoding, and a system that refuses nothing. \<open>fresh_world\<close> has no file and no
  directory; in \<open>done_world\<close> the sentinel file of the subject exists.
\<close>

definition sample_env :: enigma_env where
  "sample_env =
     \<lparr>input_dir = ''/data/dtifit'', output_dir = ''/data/enigmaDTI'', study_tag = ''STU'',
       subjects = [''STU_CMH_0001_01''],
       found_checklist =
         [\<lparr>row_id = ''STU_CMH_0001_01'', FA_nii = Some ''STU_CMH_0001_01_FA.nii.gz'',
           date_ran = None, qc_rator = None, qc_rating = None, row_notes = None\<rparr>],
       timestamp = ''20260101-120000'', today = ''2026-01-01'', temp_dir = ''/tmp/tmp1'',
       make_file_qbatch_command = (\<lambda>f n l t. ''qbatch -N '' @ n @ '' '' @ f),
       make_piped_qbatch_command =
         (\<lambda>c n l t d. c @ '' | qbatch -N '' @ n @ '' --afterok '' @ d @ '' -''),
       normpath = (\<lambda>p. p),
       to_csv = (\<lambda>rows. concat (map (\<lambda>r. row_id r @ [CHR 0x0A]) rows)),
       encoding = \<lparr>decode = Some, encode = Some,
                    open_error = (\<lambda>p. ''No such file or directory''),
                    decode_error = (\<lambda>b. []), dash_found = False,
                    update_qc_reviewers = (\<lambda>d. Inr ()),
                    update_scan_checklist = (\<lambda>d. Inr ())\<rparr>,
       refuses = (\<lambda>p. False), mtime_matches = (\<lambda>p. False)\<rparr>"

definition sample_args :: "bool \<Rightarrow> enigma_args" where
  "sample_args dry =
     \<lparr>POST_ONLY = False, NO_POST = False, DRYRUN = dry, CALC_MD = False, CALC_ALL = False,
       debug = False, subject_filter = None, walltime = ''2:00:00'',
       walltime_post = ''2:00:00''\<rparr>"

definition fresh_world :: world where
  "fresh_world = \<lparr>files = Map.empty, modes = Map.empty, dirs = [], executed = [], skipped = []\<rparr>"


section \<open>Session_Scan links: properties\<close>

text \<open>
  C10. Whenever \<open>get_add_session_scan_link\<close> creates a new link (the query for the
  given session and scan does not return exactly one row), the row it stores and returns
  has \<open>is_primary = False\<close>, and the value passed for the \<open>is_primary\<close> argument
  makes no difference to the outcome.
\<close>

theorem new_link_never_primary:
  assumes "length (link_query target_session sc tbl) \<noteq> 1"
  shows "(\<exists>link. get_add_session_scan_link target_session sc new_name arg True tbl
                  = Inr (link, tbl @ [link])
              \<and> is_primary link = False
              \<and> link_session_id link = ses_id target_session
              \<and> link_scan_id link = scan_id sc)
         \<and> get_add_session_scan_link target_session sc new_name arg commit_ok tbl
           = get_add_session_scan_link target_session sc new_name (\<not> arg) commit_ok tbl"
  using assms by (simp add: get_add_session_scan_link_def Let_def)

theorem new_link_never_primary_witness:
  "length (link_query \<lparr>ses_id = 7, ses_name = ''STU_CMH_0001_01'', ses_study = ''STU'',
                        ses_site = ''CMH'', ses_date = None, cl_comment = None,
                        ses_is_phantom = None, is_repeated = None, repeat_count = None\<rparr>
                      \<lparr>scan_id = 3, scan_name = ''STU_CMH_0001_01_01_T1_02'',
                        series_number = ''02'', scantype = ''T1'', description = ''SagT1'',
                        repeat_number = None, bl_comment = None\<rparr> []) \<noteq> 1
   \<and> (\<exists>link. get_add_session_scan_link
                 \<lparr>ses_id = 7, ses_name = ''STU_CMH_0001_01'', ses_study = ''STU'',
                   ses_site = ''CMH'', ses_date = None, cl_comment = None,
                   ses_is_phantom = None, is_repeated = None, repeat_count = None\<rparr>
                 \<lparr>scan_id = 3, scan_name = ''STU_CMH_0001_01_01_T1_02'',
                   series_number = ''02'', scantype = ''T1'', description = ''SagT1'',
                   repeat_number = None, bl_comment = None\<rparr> None True True []
                = Inr (link, [] @ [link])
              \<and> is_primary link = False)"
proof -
  let ?ses = "\<lparr>ses_id = 7, ses_name = ''STU_CMH_0001_01'', ses_study = ''STU'',
                 ses_site = ''CMH'', ses_date = None, cl_comment = None,
                 ses_is_phantom = None, is_repeated = None, repeat_count = None\<rparr>"
  let ?sc = "\<lparr>scan_id = 3, scan_name = ''STU_CMH_0001_01_01_T1_02'',
                series_number = ''02'', scantype = ''T1'', description = ''SagT1'',
                repeat_number = None, bl_comment = None\<rparr>"
  have h: "length (link_query ?ses ?sc []) \<noteq> 1"
    by (simp add: link_query_def)
  have "\<exists>link. get_add_session_scan_link ?ses ?sc None True True [] = Inr (link, [] @ [link])
              \<and> is_primary link = False
              \<and> link_session_id link = ses_id ?ses
              \<and> link_scan_id link = scan_id ?sc"
    using new_link_never_primary [OF h, of None True True] by (rule conjunct1)
  then show ?thesis using h by blast
qed

section \<open>Ambiguous session lookups\<close>

lemma session_lookup_ambiguous:
  assumes "1 < length (session_query st session_name db)"
  shows "session_lookup e st site session_name date create db = Inr ([], None, db)"
  using assms by (auto simp: session_lookup_def Let_def)

lemma session_finish_unbound:
  "fst (snd (session_finish cl commit_ok session_name db0 lg None db1))
     \<in> {Inl ExternalError, Inl (UnboundLocalError ''cl_comment''),
        Inl (UnboundLocalError ''dashboard_session''), Inr RetNone}"
  by (cases cl) (simp_all add: session_finish_def)

text \<open>
  When the session query returns more than one row and the session name, the site and
  the date are valid, \<open>get_add_session\<close> never raises a \<open>DashboardException\<close>:
  it leaves both branches of the \<open>if\<close> with \<open>dashboard_session\<close> unbound and ends
  in an \<open>UnboundLocalError\<close>, in the exception of \<open>check_checklist\<close>, or (when
  the commit fails) in \<open>return None\<close>.
\<close>

lemma get_add_session_ambiguous:
  assumes "1 < length (session_query st session_name db)"
    and "scanid_parse e session_name = Some ident"
    and "id_site ident \<in> set (sites st)"
    and "truthy date \<longrightarrow> strptime e (the date) \<noteq> None"
  shows "fst (snd (get_add_session e commit_ok (Some st) session_name date create db))
     \<in> {Inl ExternalError, Inl (UnboundLocalError ''cl_comment''),
        Inl (UnboundLocalError ''dashboard_session''), Inr RetNone}"
proof -
  have ne: "filter (\<lambda>site. site = id_site ident) (sites st) \<noteq> []"
    using assms(3) by (simp add: filter_empty_conv)
  have "get_add_session e commit_ok (Some st) session_name date create db
        = session_finish (check_checklist e session_name (nickname st)) commit_ok
            session_name db [] None db"
    using assms(2,4) ne by (auto simp: get_add_session_def Let_def session_lookup_ambiguous [OF assms(1)])
  then show ?thesis using session_finish_unbound by simp
qed

text \<open>
  C1. Two rows of the session table carry the study \<open>STU\<close> and the name
  \<open>STU_CMH_0001_01\<close>. Looking that session up does not raise the ambiguous-match
  \<open>DashboardException\<close>: with no checklist comment and a successful commit the call
  ends in \<open>UnboundLocalError\<close> at \<open>return dashboard_session\<close>, whereas the sibling
  \<open>get_add_scan\<close> raises \<open>DashboardException('Scan not unique')\<close> when its query
  returns more than one row.
\<close>

theorem get_add_session_two_rows_unbound:
  "fst (snd (get_add_session
      \<lparr> scanid_parse = (\<lambda>s. Some \<lparr>id_site = ''CMH'', id_session = [], id_str = s,
                                   id_full_subjectid_with_timepoint = s\<rparr>),
        scanid_parse_filename = (\<lambda>s. None),
        scanid_is_phantom = (\<lambda>s. False),
        strptime = (\<lambda>s. None),
        strftime = (\<lambda>d. []),
        py_int = (\<lambda>s. None),
        check_checklist = (\<lambda>n s. Returns None),
        check_blacklist = (\<lambda>n s. Returns None) \<rparr>
      True
      (Some \<lparr>nickname = ''STU'', sites = [''CMH''], scantypes = [''T1'']\<rparr>)
      ''STU_CMH_0001_01'' None True
      \<lparr> sessions =
          [\<lparr>ses_id = 1, ses_name = ''STU_CMH_0001_01'', ses_study = ''STU'', ses_site = ''CMH'',
            ses_date = None, cl_comment = None, ses_is_phantom = None,
            is_repeated = Some False, repeat_count = Some 1\<rparr>,
           \<lparr>ses_id = 2, ses_name = ''STU_CMH_0001_01'', ses_study = ''STU'', ses_site = ''CMH'',
            ses_date = None, cl_comment = None, ses_is_phantom = None,
            is_repeated = Some False, repeat_count = Some 1\<rparr>],
        scans = [], links = [], scantype_tbl = [''T1''] \<rparr>))
   = Inl (UnboundLocalError ''dashboard_session'')"
  by (simp add: get_add_session_def session_lookup_def session_query_def session_finish_def Let_def)

section \<open>Blacklist reconciliation of a scan\<close>

lemma replace_first_same: "replace_first (\<lambda>r. r = x) x xs = xs"
  by (induction xs) auto

lemma get_add_scan_found:
  assumes "scanid_parse_filename e name = Some (ident, tag, series, desc)"
    and "rep = (if id_session ident \<noteq> [] then py_int e (id_session ident) else None)"
    and "id_session ident = [] \<or> rep \<noteq> None"
    and "scan_query st (id_full_subjectid_with_timepoint ident)
           (id_str ident @ ''_'' @ tag @ ''_'' @ series) rep db = [sc]"
  shows "get_add_scan e session_commit_ok commit_ok (Some st) name create db
         = scan_finish (check_blacklist e name (nickname st)) commit_ok name db [Found_scan name] sc db"
  using assms by (auto simp: get_add_scan_def Let_def)

lemma get_add_scan_created:
  assumes "scanid_parse_filename e name = Some (ident, tag, series, desc)"
    and "rep = (if id_session ident \<noteq> [] then py_int e (id_session ident) else None)"
    and "id_session ident = [] \<or> rep \<noteq> None"
    and "scan_query st (id_full_subjectid_with_timepoint ident)
           (id_str ident @ ''_'' @ tag @ ''_'' @ series) rep db = []"
    and "scan_create e session_commit_ok st name (id_full_subjectid_with_timepoint ident)
           (id_str ident @ ''_'' @ tag @ ''_'' @ series) tag series desc rep create db
         = Inr (lg0, sc, db0, db1)"
  shows "get_add_scan e session_commit_ok commit_ok (Some st) name create db
         = scan_finish (check_blacklist e name (nickname st)) commit_ok name db0 lg0 sc db1"
  using assms by (auto simp: get_add_scan_def Let_def)

lemma scan_finish_returns:
  "scan_finish (Returns blc) commit_ok name db0 lg sc db1 =
     (let sc' = (if truthy blc \<and> blc \<noteq> bl_comment sc then sc\<lparr>bl_comment := blc\<rparr> else sc);
          logged = (if \<not> truthy blc \<and> blc \<noteq> bl_comment sc
                  then [Comment_in_db_not_in_blacklist (scan_name sc) (bl_comment sc)] else [])
      in if commit_ok then
           (lg @ logged, Inr (Some sc'), db1\<lparr>scans := replace_first (\<lambda>r. r = sc) sc' (scans db1)\<rparr>)
         else (lg @ logged @ [Error_adding_scan name], Inl (DashboardException []), db0))"
  by (auto simp: scan_finish_def Let_def)

text \<open>
  C9. The blacklist reconciliation of \<open>get_add_scan\<close>, when the scan name parses
  and \<open>check_blacklist\<close> returns the file's comment \<open>blc\<close> (\<open>None\<close> when the
  file has no entry). \<open>sc\<close> is the scan before the reconciliation: the row the query
  found, or the row just created. The call returns, and on a successful commit stores in
  place of \<open>sc\<close>, the scan \<open>sc'\<close>, which differs from \<open>sc\<close> at most in
  \<open>bl_comment\<close>, and there only when the file's comment is non-empty and differs from
  the stored one; a non-empty stored comment is never replaced by an empty one. The
  mismatch is logged exactly when the file's comment is empty or missing and differs from
  the stored one; in particular, when the file has no entry while the database holds a
  comment, the mismatch is logged and the scan table is left as it was. When the commit
  fails the call raises \<open>DashboardException\<close> and the database is the one last
  committed.
\<close>

theorem get_add_scan_reconciles_blacklist:
  assumes "scanid_parse_filename e name = Some (ident, tag, series, desc)"
    and "rep = (if id_session ident \<noteq> [] then py_int e (id_session ident) else None)"
    and "id_session ident = [] \<or> rep \<noteq> None"
    and "check_blacklist e name (nickname st) = Returns blc"
    and "sc' = (if truthy blc \<and> blc \<noteq> bl_comment sc then sc\<lparr>bl_comment := blc\<rparr> else sc)"
    and "logged = (if \<not> truthy blc \<and> blc \<noteq> bl_comment sc
                 then [Comment_in_db_not_in_blacklist (scan_name sc) (bl_comment sc)] else [])"
  shows "(scan_query st (id_full_subjectid_with_timepoint ident)
            (id_str ident @ ''_'' @ tag @ ''_'' @ series) rep db = [sc] \<longrightarrow>
          get_add_scan e session_commit_ok commit_ok (Some st) name create db
          = (if commit_ok then
               ([Found_scan name] @ logged, Inr (Some sc'),
                db\<lparr>scans := replace_first (\<lambda>r. r = sc) sc' (scans db)\<rparr>)
             else ([Found_scan name] @ logged @ [Error_adding_scan name],
                   Inl (DashboardException []), db)))
       \<and> (scan_query st (id_full_subjectid_with_timepoint ident)
            (id_str ident @ ''_'' @ tag @ ''_'' @ series) rep db = []
          \<and> scan_create e session_commit_ok st name (id_full_subjectid_with_timepoint ident)
              (id_str ident @ ''_'' @ tag @ ''_'' @ series) tag series desc rep create db
            = Inr (lg0, sc, db0, db1) \<longrightarrow>
          get_add_scan e session_commit_ok commit_ok (Some st) name create db
          = (if commit_ok then
               (lg0 @ logged, Inr (Some sc'),
                db1\<lparr>scans := replace_first (\<lambda>r. r = sc) sc' (scans db1)\<rparr>)
             else (lg0 @ logged @ [Error_adding_scan name], Inl (DashboardException []), db0)))
       \<and> (bl_comment sc' \<noteq> bl_comment sc \<longrightarrow>
            truthy blc \<and> blc \<noteq> bl_comment sc \<and> bl_comment sc' = blc)
       \<and> sc' = sc\<lparr>bl_comment := bl_comment sc'\<rparr>
       \<and> (truthy (bl_comment sc) \<longrightarrow> truthy (bl_comment sc'))
       \<and> (blc = None \<and> bl_comment sc \<noteq> None \<longrightarrow>
            logged = [Comment_in_db_not_in_blacklist (scan_name sc) (bl_comment sc)]
          \<and> sc' = sc
          \<and> db\<lparr>scans := replace_first (\<lambda>r. r = sc) sc' (scans db)\<rparr> = db)"
proof -
  have found: "scan_query st (id_full_subjectid_with_timepoint ident)
            (id_str ident @ ''_'' @ tag @ ''_'' @ series) rep db = [sc] \<Longrightarrow>
          get_add_scan e session_commit_ok commit_ok (Some st) name create db
          = (if commit_ok then
               ([Found_scan name] @ logged, Inr (Some sc'),
                db\<lparr>scans := replace_first (\<lambda>r. r = sc) sc' (scans db)\<rparr>)
             else ([Found_scan name] @ logged @ [Error_adding_scan name],
                   Inl (DashboardException []), db))"
    using get_add_scan_found [OF assms(1,2,3), of st db sc session_commit_ok commit_ok create]
    by (simp add: assms(4) scan_finish_returns Let_def assms(5,6))
  have created: "scan_query st (id_full_subjectid_with_timepoint ident)
            (id_str ident @ ''_'' @ tag @ ''_'' @ series) rep db = [] \<Longrightarrow>
          scan_create e session_commit_ok st name (id_full_subjectid_with_timepoint ident)
              (id_str ident @ ''_'' @ tag @ ''_'' @ series) tag series desc rep create db
            = Inr (lg0, sc, db0, db1) \<Longrightarrow>
          get_add_scan e session_commit_ok commit_ok (Some st) name create db
          = (if commit_ok then
               (lg0 @ logged, Inr (Some sc'),
                db1\<lparr>scans := replace_first (\<lambda>r. r = sc) sc' (scans db1)\<rparr>)
             else (lg0 @ logged @ [Error_adding_scan name], Inl (DashboardException []), db0))"
    using get_add_scan_created [OF assms(1,2,3), of st db session_commit_ok create lg0 sc db0 db1 commit_ok]
    by (simp add: assms(4) scan_finish_returns Let_def assms(5,6))
  have c3: "bl_comment sc' \<noteq> bl_comment sc \<longrightarrow>
            truthy blc \<and> blc \<noteq> bl_comment sc \<and> bl_comment sc' = blc"
    by (simp add: assms(5))
  have c4: "sc' = sc\<lparr>bl_comment := bl_comment sc'\<rparr>"
    by (simp add: assms(5))
  have c5: "truthy (bl_comment sc) \<longrightarrow> truthy (bl_comment sc')"
    by (simp add: assms(5))
  have c6: "blc = None \<and> bl_comment sc \<noteq> None \<longrightarrow>
            logged = [Comment_in_db_not_in_blacklist (scan_name sc) (bl_comment sc)]
          \<and> sc' = sc
          \<and> db\<lparr>scans := replace_first (\<lambda>r. r = sc) sc' (scans db)\<rparr> = db"
    by (auto simp: assms(5,6) replace_first_same)
  show ?thesis using found created c3 c4 c5 c6 by blast
qed


theorem get_add_scan_reconciles_blacklist_witness:
  "scan_query \<lparr>nickname = ''STU'', sites = [''CMH''], scantypes = [''T1'']\<rparr>
     ''STU_CMH_0001_01'' (''STU_CMH_0001_01_01'' @ ''_'' @ ''T1'' @ ''_'' @ ''02'') (Some 1)
     \<lparr>sessions = [\<lparr>ses_id = 7, ses_name = ''STU_CMH_0001_01'', ses_study = ''STU'',
                     ses_site = ''CMH'', ses_date = None, cl_comment = None,
                     ses_is_phantom = Some False, is_repeated = Some False,
                     repeat_count = Some 1\<rparr>],
       scans = [\<lparr>scan_id = 3, scan_name = ''STU_CMH_0001_01_01_T1_02'', series_number = ''02'',
                  scantype = ''T1'', description = ''SagT1'', repeat_number = Some 1,
                  bl_comment = Some ''motion''\<rparr>],
       links = [\<lparr>link_scan_id = 3, link_session_id = 7,
                  link_scan_name = ''STU_CMH_0001_01_01_T1_02'', is_primary = True\<rparr>],
       scantype_tbl = [''T1'']\<rparr>
   = [\<lparr>scan_id = 3, scan_name = ''STU_CMH_0001_01_01_T1_02'', series_number = ''02'',
        scantype = ''T1'', description = ''SagT1'', repeat_number = Some 1,
        bl_comment = Some ''motion''\<rparr>]
   \<and> get_add_scan
       \<lparr> scanid_parse = (\<lambda>s. None),
         scanid_parse_filename =
           (\<lambda>s. Some (\<lparr>id_site = ''CMH'', id_session = ''01'', id_str = ''STU_CMH_0001_01_01'',
                         id_full_subjectid_with_timepoint = ''STU_CMH_0001_01''\<rparr>,
                       ''T1'', ''02'', ''SagT1'')),
         scanid_is_phantom = (\<lambda>s. False),
         strptime = (\<lambda>s. None),
         strftime = (\<lambda>d. []),
         py_int = (\<lambda>s. Some 1),
         check_checklist = (\<lambda>n s. Returns None),
         check_blacklist = (\<lambda>n s. Returns (Some ''ghosting'')) \<rparr>
       True True (Some \<lparr>nickname = ''STU'', sites = [''CMH''], scantypes = [''T1'']\<rparr>)
       ''STU_CMH_0001_01_01_T1_02_SagT1'' False
       \<lparr>sessions = [\<lparr>ses_id = 7, ses_name = ''STU_CMH_0001_01'', ses_study = ''STU'',
                       ses_site = ''CMH'', ses_date = None, cl_comment = None,
                       ses_is_phantom = Some False, is_repeated = Some False,
                       repeat_count = Some 1\<rparr>],
         scans = [\<lparr>scan_id = 3, scan_name = ''STU_CMH_0001_01_01_T1_02'', series_number = ''02'',
                    scantype = ''T1'', description = ''SagT1'', repeat_number = Some 1,
                    bl_comment = Some ''motion''\<rparr>],
         links = [\<lparr>link_scan_id = 3, link_session_id = 7,
                    link_scan_name = ''STU_CMH_0001_01_01_T1_02'', is_primary = True\<rparr>],
         scantype_tbl = [''T1'']\<rparr>
     = ([Found_scan ''STU_CMH_0001_01_01_T1_02_SagT1''],
        Inr (Some \<lparr>scan_id = 3, scan_name = ''STU_CMH_0001_01_01_T1_02'', series_number = ''02'',
                    scantype = ''T1'', description = ''SagT1'', repeat_number = Some 1,
                    bl_comment = Some ''ghosting''\<rparr>),
        \<lparr>sessions = [\<lparr>ses_id = 7, ses_name = ''STU_CMH_0001_01'', ses_study = ''STU'',
                        ses_site = ''CMH'', ses_date = None, cl_comment = None,
                        ses_is_phantom = Some False, is_repeated = Some False,
                        repeat_count = Some 1\<rparr>],
          scans = [\<lparr>scan_id = 3, scan_name = ''STU_CMH_0001_01_01_T1_02'',
                     series_number = ''02'', scantype = ''T1'', description = ''SagT1'',
                     repeat_number = Some 1, bl_comment = Some ''ghosting''\<rparr>],
          links = [\<lparr>link_scan_id = 3, link_session_id = 7,
                     link_scan_name = ''STU_CMH_0001_01_01_T1_02'', is_primary = True\<rparr>],
          scantype_tbl = [''T1'']\<rparr>)
   \<and> get_add_scan
       \<lparr> scanid_parse = (\<lambda>s. None),
         scanid_parse_filename =
           (\<lambda>s. Some (\<lparr>id_site = ''CMH'', id_session = ''01'', id_str = ''STU_CMH_0001_01_01'',
                         id_full_subjectid_with_timepoint = ''STU_CMH_0001_01''\<rparr>,
                       ''T1'', ''02'', ''SagT1'')),
         scanid_is_phantom = (\<lambda>s. False),
         strptime = (\<lambda>s. None),
         strftime = (\<lambda>d. []),
         py_int = (\<lambda>s. Some 1),
         check_checklist = (\<lambda>n s. Returns None),
         check_blacklist = (\<lambda>n s. Returns None) \<rparr>
       True True (Some \<lparr>nickname = ''STU'', sites = [''CMH''], scantypes = [''T1'']\<rparr>)
       ''STU_CMH_0001_01_01_T1_02_SagT1'' False
       \<lparr>sessions = [\<lparr>ses_id = 7, ses_name = ''STU_CMH_0001_01'', ses_study = ''STU'',
                       ses_site = ''CMH'', ses_date = None, cl_comment = None,
                       ses_is_phantom = Some False, is_repeated = Some False,
                       repeat_count = Some 1\<rparr>],
         scans = [\<lparr>scan_id = 3, scan_name = ''STU_CMH_0001_01_01_T1_02'', series_number = ''02'',
                    scantype = ''T1'', description = ''SagT1'', repeat_number = Some 1,
                    bl_comment = Some ''motion''\<rparr>],
         links = [\<lparr>link_scan_id = 3, link_session_id = 7,
                    link_scan_name = ''STU_CMH_0001_01_01_T1_02'', is_primary = True\<rparr>],
         scantype_tbl = [''T1'']\<rparr>
     = ([Found_scan ''STU_CMH_0001_01_01_T1_02_SagT1'',
         Comment_in_db_not_in_blacklist ''STU_CMH_0001_01_01_T1_02'' (Some ''motion'')],
        Inr (Some \<lparr>scan_id = 3, scan_name = ''STU_CMH_0001_01_01_T1_02'', series_number = ''02'',
                    scantype = ''T1'', description = ''SagT1'', repeat_number = Some 1,
                    bl_comment = Some ''motion''\<rparr>),
        \<lparr>sessions = [\<lparr>ses_id = 7, ses_name = ''STU_CMH_0001_01'', ses_study = ''STU'',
                        ses_site = ''CMH'', ses_date = None, cl_comment = None,
                        ses_is_phantom = Some False, is_repeated = Some False,
                        repeat_count = Some 1\<rparr>],
          scans = [\<lparr>scan_id = 3, scan_name = ''STU_CMH_0001_01_01_T1_02'',
                     series_number = ''02'', scantype = ''T1'', description = ''SagT1'',
                     repeat_number = Some 1, bl_comment = Some ''motion''\<rparr>],
          links = [\<lparr>link_scan_id = 3, link_session_id = 7,
                     link_scan_name = ''STU_CMH_0001_01_01_T1_02'', is_primary = True\<rparr>],
          scantype_tbl = [''T1'']\<rparr>)"
proof -
  let ?st = "\<lparr>nickname = ''STU'', sites = [''CMH''], scantypes = [''T1'']\<rparr>"
  let ?ident = "\<lparr>id_site = ''CMH'', id_session = ''01'', id_str = ''STU_CMH_0001_01_01'',
                   id_full_subjectid_with_timepoint = ''STU_CMH_0001_01''\<rparr>"
  let ?e = "\<lambda>blc. \<lparr> scanid_parse = (\<lambda>s. None),
         scanid_parse_filename = (\<lambda>s. Some (?ident, ''T1'', ''02'', ''SagT1'')),
         scanid_is_phantom = (\<lambda>s. False),
         strptime = (\<lambda>s. None),
         strftime = (\<lambda>d. []),
         py_int = (\<lambda>s. Some 1),
         check_checklist = (\<lambda>n s. Returns None),
         check_blacklist = (\<lambda>n s. Returns blc) \<rparr>"
  let ?sc = "\<lparr>scan_id = 3, scan_name = ''STU_CMH_0001_01_01_T1_02'', series_number = ''02'',
                scantype = ''T1'', description = ''SagT1'', repeat_number = Some 1,
                bl_comment = Some ''motion''\<rparr>"
  let ?db = "\<lparr>sessions = [\<lparr>ses_id = 7, ses_name = ''STU_CMH_0001_01'', ses_study = ''STU'',
                       ses_site = ''CMH'', ses_date = None, cl_comment = None,
                       ses_is_phantom = Some False, is_repeated = Some False,
                       repeat_count = Some 1\<rparr>],
         scans = [?sc],
         links = [\<lparr>link_scan_id = 3, link_session_id = 7,
                    link_scan_name = ''STU_CMH_0001_01_01_T1_02'', is_primary = True\<rparr>],
         scantype_tbl = [''T1'']\<rparr>"
  let ?name = "''STU_CMH_0001_01_01_T1_02_SagT1''"
  have h1: "scanid_parse_filename (?e blc) ?name = Some (?ident, ''T1'', ''02'', ''SagT1'')" for blc
    by simp
  have h2: "Some 1 = (if id_session ?ident \<noteq> [] then py_int (?e blc) (id_session ?ident) else None)"
    for blc by simp
  have h3: "id_session ?ident = [] \<or> Some (1::int) \<noteq> None" by simp
  have h4: "check_blacklist (?e blc) ?name (nickname ?st) = Returns blc" for blc by simp
  have q: "scan_query ?st (id_full_subjectid_with_timepoint ?ident)
             (id_str ?ident @ ''_'' @ ''T1'' @ ''_'' @ ''02'') (Some 1) ?db = [?sc]"
    by (simp add: scan_query_def)
  have a: "get_add_scan (?e (Some ''ghosting'')) True True (Some ?st) ?name False ?db
           = ([Found_scan ?name], Inr (Some (?sc\<lparr>bl_comment := Some ''ghosting''\<rparr>)),
              ?db\<lparr>scans := [?sc\<lparr>bl_comment := Some ''ghosting''\<rparr>]\<rparr>)"
    using get_add_scan_reconciles_blacklist [OF h1 h2 h3 h4 refl refl,
            where sc = ?sc and db = ?db and commit_ok = True
              and session_commit_ok = True and create = False] q
    by simp
  have b: "get_add_scan (?e None) True True (Some ?st) ?name False ?db
           = ([Found_scan ?name,
               Comment_in_db_not_in_blacklist ''STU_CMH_0001_01_01_T1_02'' (Some ''motion'')],
              Inr (Some ?sc), ?db)"
    using get_add_scan_reconciles_blacklist [OF h1 h2 h3 h4 refl refl,
            where sc = ?sc and db = ?db and commit_ok = True
              and session_commit_ok = True and create = False] q
    by simp
  show ?thesis using q a b by simp
qed

section \<open>Retrying a metadata write\<close>

lemma write_metadata_all_fail:
  "\<forall>j<n. att (k + j) \<noteq> Succeeds \<Longrightarrow>
   \<exists>fs'. write_metadata att lines path (int n) (k, tr, fs)
     = Some (Inl (MetadataException (''Failed to update '' @ path)), k + n,
             tr @ failed_rounds path (int n) n, fs')"
proof (induction n arbitrary: k tr fs)
  case 0
  show ?case by (subst write_metadata.simps) simp
next
  case (Suc n)
  from Suc.prems have "att k \<noteq> Succeeds"
    by (metis add.right_neutral zero_less_Suc)
  then obtain c where c: "att k = Fails c"
    by (cases "att k") auto
  have "\<forall>j<n. att (Suc k + j) \<noteq> Succeeds"
    using Suc.prems by (metis Suc_less_eq add_Suc_shift)
  from Suc.IH [OF this, of "tr @ [Open_write path, Log_failed_write path (int (Suc n)), Sleep]"
      "fs(path := c)"]
  obtain fs' where
    "write_metadata att lines path (int n)
       (Suc k, tr @ [Open_write path, Log_failed_write path (int (Suc n)), Sleep], fs(path := c))
     = Some (Inl (MetadataException (''Failed to update '' @ path)), Suc k + n,
         (tr @ [Open_write path, Log_failed_write path (int (Suc n)), Sleep])
           @ failed_rounds path (int n) n, fs')"
    by blast
  then show ?case
    by (subst write_metadata.simps) (simp add: c)
qed

lemma write_metadata_first_success:
  "j < n \<Longrightarrow> att (k + j) = Succeeds \<Longrightarrow> \<forall>i<j. att (k + i) \<noteq> Succeeds \<Longrightarrow>
   \<exists>fs'. write_metadata att lines path (int n) (k, tr, fs)
     = Some (Inr (), k + j + 1,
             tr @ failed_rounds path (int n) j @ [Open_write path], fs'(path \<mapsto> concat lines))"
proof (induction j arbitrary: n k tr fs)
  case 0
  then show ?case by (subst write_metadata.simps) auto
next
  case (Suc j)
  from Suc.prems(3) have "att k \<noteq> Succeeds"
    by (metis add.right_neutral zero_less_Suc)
  then obtain c where c: "att k = Fails c"
    by (cases "att k") auto
  obtain m where m: "n = Suc m"
    using Suc.prems(1) by (cases n) auto
  have 1: "j < m" using Suc.prems(1) m by simp
  have 2: "att (Suc k + j) = Succeeds" using Suc.prems(2) by simp
  have 3: "\<forall>i<j. att (Suc k + i) \<noteq> Succeeds"
    using Suc.prems(3) by (metis Suc_less_eq add_Suc_shift)
  from Suc.IH [OF 1 2 3, of "tr @ [Open_write path, Log_failed_write path (int n), Sleep]"
      "fs(path := c)"]
  obtain fs' where
    "write_metadata att lines path (int m)
       (Suc k, tr @ [Open_write path, Log_failed_write path (int n), Sleep], fs(path := c))
     = Some (Inr (), Suc k + j + 1,
         (tr @ [Open_write path, Log_failed_write path (int n), Sleep])
           @ failed_rounds path (int m) j @ [Open_write path], fs'(path \<mapsto> concat lines))"
    by blast
  then show ?case
    by (subst write_metadata.simps) (auto simp: c m)
qed

lemma failed_rounds_counts:
  "length (filter (\<lambda>ev. ev = Open_write path) (failed_rounds path r n)) = n"
  "length (filter (\<lambda>ev. ev = Sleep) (failed_rounds path r n)) = n"
  by (induction n arbitrary: r) simp_all

text \<open>
  C6. \<open>write_metadata\<close> called with \<open>retry = n\<close> (\<open>3\<close> by default) on a fresh
  trace. If each of the \<open>n\<close> attempts fails, it opens the file \<open>n\<close> times,
  sleeps after each failure, and raises \<open>MetadataException\<close> naming the path. If the
  attempt number \<open>j < n\<close> is the first to succeed, it returns normally after
  \<open>j + 1\<close> attempts and the file holds exactly the given lines.
\<close>

theorem write_metadata_bounded_retry:
  "((\<forall>j<n. att j \<noteq> Succeeds) \<longrightarrow>
      (\<exists>fs'. write_metadata att lines path (int n) (0, [], fs)
         = Some (Inl (MetadataException (''Failed to update '' @ path)), n,
                 failed_rounds path (int n) n, fs'))
      \<and> length (filter (\<lambda>ev. ev = Open_write path) (failed_rounds path (int n) n)) = n
      \<and> length (filter (\<lambda>ev. ev = Sleep) (failed_rounds path (int n) n)) = n)
   \<and> (\<forall>j<n. att j = Succeeds \<and> (\<forall>i<j. att i \<noteq> Succeeds) \<longrightarrow>
        (\<exists>fs'. write_metadata att lines path (int n) (0, [], fs)
           = Some (Inr (), j + 1, failed_rounds path (int n) j @ [Open_write path], fs')
         \<and> fs' path = Some (concat lines)))"
proof (intro conjI impI allI)
  assume "\<forall>j<n. att j \<noteq> Succeeds"
  then have "\<forall>j<n. att (0 + j) \<noteq> Succeeds" by simp
  from write_metadata_all_fail [OF this, of lines path "[]" fs]
  show "\<exists>fs'. write_metadata att lines path (int n) (0, [], fs)
         = Some (Inl (MetadataException (''Failed to update '' @ path)), n,
                 failed_rounds path (int n) n, fs')"
    by simp
next
  show "length (filter (\<lambda>ev. ev = Open_write path) (failed_rounds path (int n) n)) = n"
    by (rule failed_rounds_counts)
next
  show "length (filter (\<lambda>ev. ev = Sleep) (failed_rounds path (int n) n)) = n"
    by (rule failed_rounds_counts)
next
  fix j
  assume j: "j < n" and a: "att j = Succeeds \<and> (\<forall>i<j. att i \<noteq> Succeeds)"
  then have 1: "att (0 + j) = Succeeds" and 2: "\<forall>i<j. att (0 + i) \<noteq> Succeeds" by simp_all
  from write_metadata_first_success [OF j 1 2, of lines path "[]" fs]
  obtain fs' where "write_metadata att lines path (int n) (0, [], fs)
     = Some (Inr (), j + 1, failed_rounds path (int n) j @ [Open_write path],
             fs'(path \<mapsto> concat lines))"
    by auto
  then show "\<exists>fs'. write_metadata att lines path (int n) (0, [], fs)
           = Some (Inr (), j + 1, failed_rounds path (int n) j @ [Open_write path], fs')
         \<and> fs' path = Some (concat lines)"
    by (intro exI [of _ "fs'(path \<mapsto> concat lines)"]) simp
qed

theorem write_metadata_bounded_retry_witness:
  "(\<lambda>k. Fails None) (0::nat) \<noteq> Succeeds
   \<and> (\<lambda>k. Fails None) (1::nat) \<noteq> Succeeds
   \<and> (\<lambda>k. Fails None) (2::nat) \<noteq> Succeeds
   \<and> (\<exists>fs'. write_metadata (\<lambda>k. Fails None) [''qc_STU_CMH_0001_01.html ok'', [CHR 0x0A]]
               ''checklist.csv'' 3 (0, [], Map.empty)
         = Some (Inl (MetadataException ''Failed to update checklist.csv''), 3,
                 [Open_write ''checklist.csv'', Log_failed_write ''checklist.csv'' 3, Sleep,
                  Open_write ''checklist.csv'', Log_failed_write ''checklist.csv'' 2, Sleep,
                  Open_write ''checklist.csv'', Log_failed_write ''checklist.csv'' 1, Sleep],
                 fs'))"
proof -
  have h: "\<forall>j<3. (\<lambda>k. Fails None) j \<noteq> Succeeds" by simp
  have e: "failed_rounds ''checklist.csv'' (int 3) 3
        = [Open_write ''checklist.csv'', Log_failed_write ''checklist.csv'' 3, Sleep,
           Open_write ''checklist.csv'', Log_failed_write ''checklist.csv'' 2, Sleep,
           Open_write ''checklist.csv'', Log_failed_write ''checklist.csv'' 1, Sleep]"
    by (simp add: numeral_3_eq_3)
  from write_metadata_bounded_retry [of 3 "\<lambda>k. Fails None"
      "[''qc_STU_CMH_0001_01.html ok'', [CHR 0x0A]]" "''checklist.csv''" Map.empty]
  have "\<exists>fs'. write_metadata (\<lambda>k. Fails None) [''qc_STU_CMH_0001_01.html ok'', [CHR 0x0A]]
               ''checklist.csv'' (int 3) (0, [], Map.empty)
         = Some (Inl (MetadataException (''Failed to update '' @ ''checklist.csv'')), 3,
                 failed_rounds ''checklist.csv'' (int 3) 3, fs')"
    using h by blast
  then show ?thesis unfolding e by simp
qed

section \<open>The aggregate QC view\<close>

lemma append_at_keys: "map fst (append_at k x d) = map fst d"
  by (induction d) (auto simp: append_at_def)

lemma blacklist_into_qc_closed:
  "blacklist_into_qc pf bs (lg, qc)
   = (lg @ concat (map (qc_log pf (map fst qc)) bs),
      map (\<lambda>(k, xs). (k, xs @ filter (\<lambda>b. subid_of pf b = Some k) bs)) qc)"
proof (induction bs arbitrary: lg qc)
  case Nil
  show ?case by simp
next
  case (Cons b bs)
  show ?case
  proof (cases "pf b")
    case None
    then show ?thesis
      using Cons.IH [of "lg @ [Malformed_scan_name b]" qc]
      by (simp add: qc_log_def subid_of_def)
  next
    case (Some r)
    obtain ident tag series descr where r: "r = (ident, tag, series, descr)"
      by (cases r) auto
    let ?s = "id_full_subjectid_with_timepoint ident"
    show ?thesis
    proof (cases "?s \<in> set (map fst qc)")
      case False
      have "map (\<lambda>(k, xs). (k, xs @ filter (\<lambda>b. subid_of pf b = Some k) (b # bs))) qc
          = map (\<lambda>(k, xs). (k, xs @ filter (\<lambda>b. subid_of pf b = Some k) bs)) qc"
        using False Some r by (intro map_cong) (force simp: subid_of_def)+
      then show ?thesis
        using Cons.IH [of "lg @ [Blacklisted_not_in_checklist ?s b]" qc] False Some r
        by (simp add: qc_log_def)
    next
      case True
      have "map (\<lambda>(k, xs). (k, xs @ filter (\<lambda>b. subid_of pf b = Some k) bs)) (append_at ?s b qc)
          = map (\<lambda>(k, xs). (k, xs @ filter (\<lambda>b. subid_of pf b = Some k) (b # bs))) qc"
        using Some r by (auto simp: append_at_def subid_of_def)
      then show ?thesis
        using Cons.IH [of lg "append_at ?s b qc"] True Some r
        by (simp add: qc_log_def append_at_keys)
    qed
  qed
qed

text \<open>
  C7. \<open>get_subject_metadata\<close>, given the checklist and the blacklist it read: the
  keys of the result are exactly the checklist subjects with a non-empty comment, in the
  checklist's order; a blacklist entry that parses and whose subject is such a key is in
  that key's list; a blacklist entry whose subject is not such a key (in particular one
  whose subject is not in the checklist at all) is logged and is in no list, and no key
  is added for it.
\<close>

theorem get_subject_metadata_view:
  "\<exists>lg qc. get_subject_metadata pf True (Inr cl) (Inr bl) = (lg, Inr qc)
     \<and> map fst qc = map fst (filter (\<lambda>(subid, c). c \<noteq> []) cl)
     \<and> (\<forall>b ident tag series descr.
           b \<in> set (map fst bl) \<and> pf b = Some (ident, tag, series, descr) \<longrightarrow>
             (\<forall>xs. (id_full_subjectid_with_timepoint ident, xs) \<in> set qc \<longrightarrow> b \<in> set xs)
           \<and> (id_full_subjectid_with_timepoint ident \<notin> set (map fst qc) \<longrightarrow>
                Blacklisted_not_in_checklist (id_full_subjectid_with_timepoint ident) b \<in> set lg
              \<and> (\<forall>k xs. (k, xs) \<in> set qc \<longrightarrow> b \<notin> set xs))
           \<and> (id_full_subjectid_with_timepoint ident \<notin> set (map fst cl) \<longrightarrow>
                id_full_subjectid_with_timepoint ident \<notin> set (map fst qc)))"
proof -
  let ?init = "map (\<lambda>(subid, c). (subid, []::string list)) (filter (\<lambda>(subid, c). c \<noteq> []) cl)"
  let ?bs = "map fst bl"
  let ?lg = "concat (map (qc_log pf (map fst ?init)) ?bs)"
  let ?qc = "map (\<lambda>(k, xs). (k, xs @ filter (\<lambda>b. subid_of pf b = Some k) ?bs)) ?init"
  have keys0: "map fst ?init = map fst (filter (\<lambda>(subid, c). c \<noteq> []) cl)"
    by (induction cl) auto
  have keys: "map fst ?qc = map fst ?init"
    by (induction ?init) auto
  have run: "get_subject_metadata pf True (Inr cl) (Inr bl) = (?lg, Inr ?qc)"
    using blacklist_into_qc_closed [of pf ?bs "[]" ?init]
    by (simp add: get_subject_metadata_def)
  have mem: "xs = filter (\<lambda>b. subid_of pf b = Some k) ?bs" if "(k, xs) \<in> set ?qc" for k xs
    using that by auto
  have "b \<in> set xs"
    if "b \<in> set ?bs" "pf b = Some (ident, tag, series, descr)"
       "(id_full_subjectid_with_timepoint ident, xs) \<in> set ?qc"
    for b ident tag series descr xs
    using mem [OF that(3)] that(1,2) by (simp add: subid_of_def)
  moreover have "Blacklisted_not_in_checklist (id_full_subjectid_with_timepoint ident) b \<in> set ?lg"
    if "b \<in> set ?bs" "pf b = Some (ident, tag, series, descr)"
       "id_full_subjectid_with_timepoint ident \<notin> set (map fst ?qc)"
    for b ident tag series descr
  proof -
    have "qc_log pf (map fst ?init) b
        = [Blacklisted_not_in_checklist (id_full_subjectid_with_timepoint ident) b]"
      using that(2,3) unfolding keys by (simp add: qc_log_def)
    then show ?thesis using that(1) by force
  qed
  moreover have "b \<notin> set xs"
    if "pf b = Some (ident, tag, series, descr)"
       "id_full_subjectid_with_timepoint ident \<notin> set (map fst ?qc)" "(k, xs) \<in> set ?qc"
    for b ident tag series descr k xs
  proof
    assume "b \<in> set xs"
    then have "subid_of pf b = Some k" using mem [OF that(3)] by simp
    then have "k = id_full_subjectid_with_timepoint ident"
      using that(1) by (simp add: subid_of_def)
    moreover have "k \<in> set (map fst ?qc)" using that(3) by force
    ultimately show False using that(2) by simp
  qed
  moreover have "id_full_subjectid_with_timepoint ident \<notin> set (map fst ?qc)"
    if "id_full_subjectid_with_timepoint ident \<notin> set (map fst cl)" for ident
    using that unfolding keys keys0 by auto
  ultimately show ?thesis
    using run keys keys0 by (intro exI [of _ ?lg] exI [of _ ?qc]) (simp only:, blast)
qed


theorem get_subject_metadata_view_witness:
  "get_subject_metadata
     (\<lambda>s. if length s < 16 then None
          else Some (\<lparr>id_site = ''CMH'', id_session = ''01'', id_str = take 18 s,
                      id_full_subjectid_with_timepoint = take 15 s\<rparr>, ''T1'', ''02'', ''SagT1''))
     True
     (Inr [(''STU_CMH_0001_01'', ''ok'')])
     (Inr [(''STU_CMH_0001_01_01_T1_02_SagT1'', ''motion''),
           (''STU_CMH_0003_01_01_T1_02_SagT1'', ''noise'')])
   = ([Blacklisted_not_in_checklist ''STU_CMH_0003_01'' ''STU_CMH_0003_01_01_T1_02_SagT1''],
      Inr [(''STU_CMH_0001_01'', [''STU_CMH_0001_01_01_T1_02_SagT1''])])
   \<and> ''STU_CMH_0003_01_01_T1_02_SagT1''
       \<in> set (map fst [(''STU_CMH_0001_01_01_T1_02_SagT1'', ''motion''),
                        (''STU_CMH_0003_01_01_T1_02_SagT1'', ''noise'')])
   \<and> ''STU_CMH_0003_01'' \<notin> set (map fst [(''STU_CMH_0001_01'', [''STU_CMH_0001_01_01_T1_02_SagT1''])])
   \<and> Blacklisted_not_in_checklist ''STU_CMH_0003_01'' ''STU_CMH_0003_01_01_T1_02_SagT1''
       \<in> set [Blacklisted_not_in_checklist ''STU_CMH_0003_01'' ''STU_CMH_0003_01_01_T1_02_SagT1'']"
proof -
  let ?pf = "\<lambda>s. if length s < 16 then None
          else Some (\<lparr>id_site = ''CMH'', id_session = ''01'', id_str = take 18 s,
                      id_full_subjectid_with_timepoint = take 15 s\<rparr>, ''T1'', ''02'', ''SagT1'')"
  let ?cl = "[(''STU_CMH_0001_01'', ''ok'')]"
  let ?bl = "[(''STU_CMH_0001_01_01_T1_02_SagT1'', ''motion''),
              (''STU_CMH_0003_01_01_T1_02_SagT1'', ''noise'')]"
  let ?b = "''STU_CMH_0003_01_01_T1_02_SagT1''"
  have ev: "get_subject_metadata ?pf True (Inr ?cl) (Inr ?bl)
     = ([Blacklisted_not_in_checklist ''STU_CMH_0003_01'' ?b],
        Inr [(''STU_CMH_0001_01'', [''STU_CMH_0001_01_01_T1_02_SagT1''])])"
    by (simp add: get_subject_metadata_def append_at_def)
  have b: "?b \<in> set (map fst ?bl)" by simp
  have p: "?pf ?b = Some (\<lparr>id_site = ''CMH'', id_session = ''01'', id_str = take 18 ?b,
                      id_full_subjectid_with_timepoint = take 15 ?b\<rparr>, ''T1'', ''02'', ''SagT1'')"
    by simp
  from get_subject_metadata_view [of ?pf ?cl ?bl]
  obtain lg qc where r: "get_subject_metadata ?pf True (Inr ?cl) (Inr ?bl) = (lg, Inr qc)"
    and v: "\<forall>b ident tag series descr.
           b \<in> set (map fst ?bl) \<and> ?pf b = Some (ident, tag, series, descr) \<longrightarrow>
             (\<forall>xs. (id_full_subjectid_with_timepoint ident, xs) \<in> set qc \<longrightarrow> b \<in> set xs)
           \<and> (id_full_subjectid_with_timepoint ident \<notin> set (map fst qc) \<longrightarrow>
                Blacklisted_not_in_checklist (id_full_subjectid_with_timepoint ident) b \<in> set lg
              \<and> (\<forall>k xs. (k, xs) \<in> set qc \<longrightarrow> b \<notin> set xs))
           \<and> (id_full_subjectid_with_timepoint ident \<notin> set (map fst ?cl) \<longrightarrow>
                id_full_subjectid_with_timepoint ident \<notin> set (map fst qc))"
    by blast
  from r ev have lg: "lg = [Blacklisted_not_in_checklist ''STU_CMH_0003_01'' ?b]"
    and qc: "qc = [(''STU_CMH_0001_01'', [''STU_CMH_0001_01_01_T1_02_SagT1''])]"
    by simp_all
  have n: "''STU_CMH_0003_01'' \<notin> set (map fst qc)" unfolding qc by simp
  from v b p have "id_full_subjectid_with_timepoint
           \<lparr>id_site = ''CMH'', id_session = ''01'', id_str = take 18 ?b,
             id_full_subjectid_with_timepoint = take 15 ?b\<rparr> \<notin> set (map fst qc) \<longrightarrow>
        Blacklisted_not_in_checklist (id_full_subjectid_with_timepoint
           \<lparr>id_site = ''CMH'', id_session = ''01'', id_str = take 18 ?b,
             id_full_subjectid_with_timepoint = take 15 ?b\<rparr>) ?b \<in> set lg"
    by blast
  then have "Blacklisted_not_in_checklist ''STU_CMH_0003_01'' ?b \<in> set lg"
    using n by simp
  then show ?thesis using ev b n unfolding lg qc by simp
qed


section \<open>Updating the blacklist\<close>

lemma dict_set_map_of: "map_of (dict_set k v d) = (map_of d)(k \<mapsto> v)"
  by (induction d) (auto simp: fun_eq_iff)

lemma dict_set_keys: "set (map fst (dict_set k v d)) = insert k (set (map fst d))"
  using dom_map_of_conv_image_fst [of "dict_set k v d"] dom_map_of_conv_image_fst [of d]
  by (simp add: dict_set_map_of)

lemma dict_set_distinct:
  "distinct (map fst d) \<Longrightarrow> distinct (map fst (dict_set k v d))"
proof (induction d)
  case Nil
  show ?case by simp
next
  case (Cons a d)
  obtain k' v' where a: "a = (k', v')" by (cases a)
  show ?case
  proof (cases "k' = k")
    case True
    then show ?thesis using Cons.prems a by simp
  next
    case False
    have "k' \<notin> set (map fst (dict_set k v d))"
      using Cons.prems a False by (simp only: dict_set_keys) auto
    then show ?thesis using Cons a False by simp
  qed
qed

lemma blacklist_step_distinct:
  "distinct (map fst d) \<Longrightarrow> blacklist_step pf scan subject line d = Inl d'
     \<Longrightarrow> distinct (map fst d')"
  by (auto simp: blacklist_step_def Let_def dict_set_distinct split: if_splits)

lemma parse_blacklist_distinct:
  "distinct (map fst d) \<Longrightarrow> parse_blacklist pf scan subject d lines = Entries old
     \<Longrightarrow> distinct (map fst old)"
proof (induction lines arbitrary: d)
  case Nil
  then show ?case by (simp split: if_splits)
next
  case (Cons line lines)
  show ?case
  proof (cases "blacklist_step pf scan subject line d")
    case (Inl d')
    then show ?thesis
      using Cons.IH [of d'] Cons.prems blacklist_step_distinct [OF Cons.prems(1) Inl] by simp
  next
    case (Inr c)
    then show ?thesis using Cons.prems by simp
  qed
qed

lemma read_blacklist_distinct:
  "read_blacklist pl pf path fs = Inr (Entries old) \<Longrightarrow> distinct (map fst old)"
  by (auto simp: read_blacklist_def split: if_splits option.splits
        intro: parse_blacklist_distinct [of "[]"])

lemma merge_blacklist_closed:
  assumes "\<forall>k\<in>set ks. pf k \<noteq> None \<and> map_of delta k \<noteq> None"
    and "distinct (map fst d)"
  shows "\<exists>d'. merge_blacklist pf delta ks (lg, d)
            = (lg @ map Skipping_empty_blacklist_comment
                      (filter (\<lambda>k. map_of delta k = Some []) ks), Inr d')
          \<and> distinct (map fst d')
          \<and> (\<forall>x. map_of d' x
                 = (if x \<in> set ks \<and> map_of delta x \<noteq> Some [] then map_of delta x
                    else map_of d x))"
  using assms
proof (induction ks arbitrary: lg d)
  case Nil
  then show ?case by simp
next
  case (Cons k ks)
  from Cons.prems obtain v where v: "map_of delta k = Some v" and pk: "pf k \<noteq> None"
    by auto
  have rest: "\<forall>k\<in>set ks. pf k \<noteq> None \<and> map_of delta k \<noteq> None"
    using Cons.prems by simp
  show ?case
  proof (cases "v = []")
    case True
    from Cons.IH [OF rest Cons.prems(2), of "lg @ [Skipping_empty_blacklist_comment k]"]
    obtain d' where
      "merge_blacklist pf delta ks (lg @ [Skipping_empty_blacklist_comment k], d)
         = ((lg @ [Skipping_empty_blacklist_comment k])
              @ map Skipping_empty_blacklist_comment
                  (filter (\<lambda>k. map_of delta k = Some []) ks), Inr d')"
      and "distinct (map fst d')"
      and "\<forall>x. map_of d' x
             = (if x \<in> set ks \<and> map_of delta x \<noteq> Some [] then map_of delta x
                else map_of d x)"
      by blast
    then show ?thesis
      using v pk True by (intro exI [of _ d']) auto
  next
    case False
    have dd: "distinct (map fst (dict_set k v d))"
      using Cons.prems(2) by (rule dict_set_distinct)
    from Cons.IH [OF rest dd, of lg]
    obtain d' where
      "merge_blacklist pf delta ks (lg, dict_set k v d)
         = (lg @ map Skipping_empty_blacklist_comment
                   (filter (\<lambda>k. map_of delta k = Some []) ks), Inr d')"
      and "distinct (map fst d')"
      and "\<forall>x. map_of d' x
             = (if x \<in> set ks \<and> map_of delta x \<noteq> Some [] then map_of delta x
                else map_of (dict_set k v d) x)"
      by blast
    then show ?thesis
      using v pk False by (intro exI [of _ d']) (auto simp: dict_set_map_of)
  qed
qed

lemma map_of_keys_iff: "(x \<in> set (map fst d)) = (map_of d x \<noteq> None)"
  by (induction d) auto

lemma encoded_all:
  "list_all (\<lambda>l. encode pl l \<noteq> None) lines \<Longrightarrow> encoded pl lines = map (\<lambda>l. the (encode pl l)) lines"
  by (simp add: encoded_def list_all_iff takeWhile_eq_all_conv [THEN iffD2])

lemma write_metadata_first_success_frame:
  "j < n \<Longrightarrow> att (k + j) = Succeeds \<Longrightarrow> \<forall>i<j. att (k + i) \<noteq> Succeeds \<Longrightarrow>
   \<exists>fs'. write_metadata att lines path (int n) (k, tr, fs)
     = Some (Inr (), k + j + 1,
             tr @ failed_rounds path (int n) j @ [Open_write path], fs')
     \<and> fs' path = Some (concat lines) \<and> (\<forall>p. p \<noteq> path \<longrightarrow> fs' p = fs p)"
proof (induction j arbitrary: n k tr fs)
  case 0
  then show ?case by (subst write_metadata.simps) auto
next
  case (Suc j)
  from Suc.prems(3) have "att k \<noteq> Succeeds"
    by (metis add.right_neutral zero_less_Suc)
  then obtain c where c: "att k = Fails c"
    by (cases "att k") auto
  obtain m where m: "n = Suc m"
    using Suc.prems(1) by (cases n) auto
  have 1: "j < m" using Suc.prems(1) m by simp
  have 2: "att (Suc k + j) = Succeeds" using Suc.prems(2) by simp
  have 3: "\<forall>i<j. att (Suc k + i) \<noteq> Succeeds"
    using Suc.prems(3) by (metis Suc_less_eq add_Suc_shift)
  from Suc.IH [OF 1 2 3, of "tr @ [Open_write path, Log_failed_write path (int n), Sleep]"
      "fs(path := c)"]
  obtain fs' where
    "write_metadata att lines path (int m)
       (Suc k, tr @ [Open_write path, Log_failed_write path (int n), Sleep], fs(path := c))
     = Some (Inr (), Suc k + j + 1,
         (tr @ [Open_write path, Log_failed_write path (int n), Sleep])
           @ failed_rounds path (int m) j @ [Open_write path], fs')"
    and "fs' path = Some (concat lines)"
    and "\<forall>p. p \<noteq> path \<longrightarrow> fs' p = (fs(path := c)) p"
    by blast
  then show ?case
    by (subst write_metadata.simps) (auto simp: c m)
qed

lemma write_lines_first_success:
  assumes "list_all (\<lambda>l. encode pl l \<noteq> None) lines"
    and "j < 3" and "att (k + j) = Succeeds" and "\<forall>i<j. att (k + i) \<noteq> Succeeds"
  shows "\<exists>fs'. write_lines pl att lines path (k, tr, fs)
     = Some (Inr (), k + j + 1, tr @ failed_rounds path 3 j @ [Open_write path], fs')
     \<and> fs' path = Some (concat (map (\<lambda>l. the (encode pl l)) lines))
     \<and> (\<forall>p. p \<noteq> path \<longrightarrow> fs' p = fs p)"
proof -
  have e: "encoded pl lines = map (\<lambda>l. the (encode pl l)) lines"
    using assms(1) by (rule encoded_all)
  have w: "write_lines pl att lines path (k, tr, fs)
           = write_metadata att (encoded pl lines) path 3 (k, tr, fs)"
    unfolding write_lines_def using assms(1) by (rule if_P)
  show ?thesis
    using write_metadata_first_success_frame [OF assms(2,3,4), of "encoded pl lines" path tr fs]
    unfolding w e by simp
qed

lemma merge_blacklist_invalid:
  assumes "\<forall>k\<in>set pre. pf k \<noteq> None \<and> map_of delta k \<noteq> None"
    and "pf bad = None"
  shows "merge_blacklist pf delta (pre @ bad # post) (lg, d)
         = (lg @ map Skipping_empty_blacklist_comment
                   (filter (\<lambda>k. map_of delta k = Some []) pre),
            Inl (MetadataException
                   (''Attempt to add invalid scan name '' @ bad @ '' to blacklist'')))"
  using assms(1)
proof (induction pre arbitrary: lg d)
  case Nil
  show ?case using assms(2) by simp
next
  case (Cons k pre)
  from Cons.prems obtain v where v: "map_of delta k = Some v" and pk: "pf k \<noteq> None"
    by auto
  have rest: "\<forall>k\<in>set pre. pf k \<noteq> None \<and> map_of delta k \<noteq> None"
    using Cons.prems by simp
  show ?case
    using Cons.IH [OF rest, of "lg @ [Skipping_empty_blacklist_comment k]" d]
      Cons.IH [OF rest, of lg "dict_set k v d"] v pk
    by (cases "v = []") auto
qed

lemma update_blacklist_merges:
  assumes "path \<noteq> []"
    and "read_blacklist pl pf path fs = Inr (Entries old)"
    and "distinct (map fst delta)"
    and "\<forall>k\<in>set (map fst delta). pf k \<noteq> None"
    and "encode pl blacklist_header \<noteq> None"
    and "\<forall>e\<in>set old \<union> set delta. encode pl (blacklist_line e) \<noteq> None"
    and "j < 3" and "att (k0 + j) = Succeeds" and "\<forall>i<j. att (k0 + i) \<noteq> Succeeds"
  shows "\<exists>merged fs'.
           update_blacklist pl pf att delta path (k0, tr, fs)
             = Some (map Skipping_empty_blacklist_comment
                       (filter (\<lambda>k. map_of delta k = Some []) (map fst delta)),
                     Inr (), k0 + j + 1,
                     tr @ failed_rounds path 3 j @ [Open_write path], fs')
         \<and> fs' path = Some (concat (map (\<lambda>l. the (encode pl l))
                                      (blacklist_header # sort (map blacklist_line merged))))
         \<and> (\<forall>p. p \<noteq> path \<longrightarrow> fs' p = fs p)
         \<and> distinct (map fst merged)
         \<and> (\<forall>x v. ((x, v) \<in> set merged)
                = (case map_of delta x of
                     None \<Rightarrow> (x, v) \<in> set old
                   | Some r \<Rightarrow> if r = [] then (x, v) \<in> set old else v = r))
         \<and> (\<forall>x. map_of delta x = Some [] \<longrightarrow>
                (x \<in> set (map fst merged)) = (x \<in> set (map fst old)))"
proof -
  have dold: "distinct (map fst old)"
    using assms(2) by (rule read_blacklist_distinct)
  have keys: "\<forall>k\<in>set (map fst delta). pf k \<noteq> None \<and> map_of delta k \<noteq> None"
    using assms(4) by (metis map_of_keys_iff)
  from merge_blacklist_closed [OF keys dold, of "[]"]
  obtain merged where
    m: "merge_blacklist pf delta (map fst delta) ([], old)
          = (map Skipping_empty_blacklist_comment
               (filter (\<lambda>k. map_of delta k = Some []) (map fst delta)), Inr merged)"
    and dm: "distinct (map fst merged)"
    and mo: "\<forall>x. map_of merged x
               = (if x \<in> set (map fst delta) \<and> map_of delta x \<noteq> Some [] then map_of delta x
                  else map_of old x)"
    by auto
  have val: "map_of merged x
                = (case map_of delta x of
                     None \<Rightarrow> map_of old x
                   | Some v \<Rightarrow> if v = [] then map_of old x else Some v)" for x
  proof (cases "x \<in> set (map fst delta)")
    case True
    then obtain v where "map_of delta x = Some v"
      using map_of_keys_iff [of x delta] by auto
    then show ?thesis using mo True by simp
  next
    case False
    then have "map_of delta x = None"
      using map_of_keys_iff [of x delta] by simp
    then show ?thesis using mo False by simp
  qed
  have mem: "((x, v) \<in> set merged)
                = (case map_of delta x of
                     None \<Rightarrow> (x, v) \<in> set old
                   | Some r \<Rightarrow> if r = [] then (x, v) \<in> set old else v = r)" for x v
  proof -
    have a: "((x, v) \<in> set merged) = (map_of merged x = Some v)"
      using dm by simp
    have b: "((x, v) \<in> set old) = (map_of old x = Some v)"
      using dold by simp
    show ?thesis
      unfolding a b val [of x] by (auto split: option.splits)
  qed
  have sub: "set merged \<subseteq> set old \<union> set delta"
  proof
    fix e assume e: "e \<in> set merged"
    obtain x v where xv: "e = (x, v)" by (cases e)
    show "e \<in> set old \<union> set delta"
    proof (cases "map_of delta x")
      case None
      then show ?thesis using e xv mem [of x v] by simp
    next
      case (Some r)
      then have "(x, r) \<in> set delta" by (rule map_of_SomeD)
      then show ?thesis using e xv mem [of x v] Some by (auto split: if_splits)
    qed
  qed
  let ?lines = "blacklist_header # sort (map blacklist_line merged)"
  have enc: "list_all (\<lambda>l. encode pl l \<noteq> None) ?lines"
    using assms(5,6) sub by (auto simp: list_all_iff)
  from write_lines_first_success [OF enc assms(7,8,9), of path tr fs]
  obtain fs' where
    w: "write_lines pl att ?lines path (k0, tr, fs)
          = Some (Inr (), k0 + j + 1, tr @ failed_rounds path 3 j @ [Open_write path], fs')"
    and c: "fs' path = Some (concat (map (\<lambda>l. the (encode pl l)) ?lines))"
    and fr: "\<forall>p. p \<noteq> path \<longrightarrow> fs' p = fs p"
    by blast
  have upd: "update_blacklist pl pf att delta path (k0, tr, fs)
      = Some (map Skipping_empty_blacklist_comment
                (filter (\<lambda>k. map_of delta k = Some []) (map fst delta)),
              Inr (), k0 + j + 1, tr @ failed_rounds path 3 j @ [Open_write path], fs')"
    using assms(1,2) m w by (simp add: update_blacklist_def)
  have abs: "(x \<in> set (map fst merged)) = (x \<in> set (map fst old))"
    if "map_of delta x = Some []" for x
    using val [of x] that map_of_keys_iff [of x merged] map_of_keys_iff [of x old] by simp
  show ?thesis
    apply (rule exI [of _ merged], rule exI [of _ fs'])
    apply (intro conjI)
         apply (rule upd)
        apply (rule c)
       apply (rule fr)
      apply (rule dm)
     apply (intro allI, rule mem)
    apply (intro allI impI, erule abs)
    done
qed

lemma update_blacklist_invalid_key:
  assumes "path \<noteq> []"
    and "read_blacklist pl pf path fs = Inr (Entries old)"
    and "map fst delta = pre @ bad # post"
    and "\<forall>k\<in>set pre. pf k \<noteq> None"
    and "pf bad = None"
  shows "update_blacklist pl pf att delta path (k0, tr, fs)
         = Some (map Skipping_empty_blacklist_comment
                   (filter (\<lambda>k. map_of delta k = Some []) pre),
                 Inl (MetadataException
                        (''Attempt to add invalid scan name '' @ bad @ '' to blacklist'')),
                 k0, tr, fs)"
proof -
  have "set pre \<subseteq> set (map fst delta)"
    unfolding assms(3) by auto
  then have keys: "\<forall>k\<in>set pre. pf k \<noteq> None \<and> map_of delta k \<noteq> None"
    using assms(4) map_of_keys_iff [of _ delta] by blast
  show ?thesis
    using assms(1,2) merge_blacklist_invalid [OF keys assms(5), of post "[]" old]
    by (simp add: update_blacklist_def assms(3))
qed

text \<open>
  C8, as the code has it. \<open>update_blacklist\<close> is called with a path to a blacklist
  file that can be read, with the entries \<open>old\<close>. If every key of the delta is a
  valid scan name, the lines to write can be encoded and one of the three write attempts
  succeeds, then every entry with an empty reason is logged and skipped, in the order of
  the delta, and the file is rewritten with the header and the sorted lines of the merge,
  no other file being touched. The merge has one entry for each scan name: an entry of
  the delta with a non-empty reason, or else the prior entry. So an entry with an empty
  reason changes nothing: its scan is in the rewritten file exactly when it was in the
  file before, with the reason it had. If some key of the delta is not a valid scan name,
  the call raises \<open>MetadataException\<close> at the first such key, after logging the
  empty reasons before it, and writes nothing.
\<close>

theorem update_blacklist_skips_empty_reasons:
  assumes "path \<noteq> []"
    and "read_blacklist pl pf path fs = Inr (Entries old)"
    and "distinct (map fst delta)"
  shows "((\<forall>k\<in>set (map fst delta). pf k \<noteq> None)
          \<and> encode pl blacklist_header \<noteq> None
          \<and> (\<forall>e\<in>set old \<union> set delta. encode pl (blacklist_line e) \<noteq> None)
          \<and> j < 3 \<and> att (k0 + j) = Succeeds \<and> (\<forall>i<j. att (k0 + i) \<noteq> Succeeds) \<longrightarrow>
          (\<exists>merged fs'.
             update_blacklist pl pf att delta path (k0, tr, fs)
               = Some (map Skipping_empty_blacklist_comment
                         (filter (\<lambda>k. map_of delta k = Some []) (map fst delta)),
                       Inr (), k0 + j + 1,
                       tr @ failed_rounds path 3 j @ [Open_write path], fs')
           \<and> fs' path = Some (concat (map (\<lambda>l. the (encode pl l))
                                        (blacklist_header # sort (map blacklist_line merged))))
           \<and> (\<forall>p. p \<noteq> path \<longrightarrow> fs' p = fs p)
           \<and> distinct (map fst merged)
           \<and> (\<forall>x v. ((x, v) \<in> set merged)
                  = (case map_of delta x of
                       None \<Rightarrow> (x, v) \<in> set old
                     | Some r \<Rightarrow> if r = [] then (x, v) \<in> set old else v = r))
           \<and> (\<forall>x. map_of delta x = Some [] \<longrightarrow>
                  (x \<in> set (map fst merged)) = (x \<in> set (map fst old)))))
       \<and> (map fst delta = pre @ bad # post \<and> (\<forall>k\<in>set pre. pf k \<noteq> None) \<and> pf bad = None \<longrightarrow>
          update_blacklist pl pf att delta path (k0, tr, fs)
          = Some (map Skipping_empty_blacklist_comment
                    (filter (\<lambda>k. map_of delta k = Some []) pre),
                  Inl (MetadataException
                         (''Attempt to add invalid scan name '' @ bad @ '' to blacklist'')),
                  k0, tr, fs))"
proof (intro conjI impI)
  assume h: "(\<forall>k\<in>set (map fst delta). pf k \<noteq> None)
          \<and> encode pl blacklist_header \<noteq> None
          \<and> (\<forall>e\<in>set old \<union> set delta. encode pl (blacklist_line e) \<noteq> None)
          \<and> j < 3 \<and> att (k0 + j) = Succeeds \<and> (\<forall>i<j. att (k0 + i) \<noteq> Succeeds)"
  have 4: "\<forall>k\<in>set (map fst delta). pf k \<noteq> None" using h by (elim conjE)
  have 5: "encode pl blacklist_header \<noteq> None" using h by (elim conjE)
  have 6: "\<forall>e\<in>set old \<union> set delta. encode pl (blacklist_line e) \<noteq> None" using h by (elim conjE)
  have 7: "j < 3" using h by (elim conjE)
  have 8: "att (k0 + j) = Succeeds" using h by (elim conjE)
  have 9: "\<forall>i<j. att (k0 + i) \<noteq> Succeeds" using h by (elim conjE)
  show "\<exists>merged fs'.
             update_blacklist pl pf att delta path (k0, tr, fs)
               = Some (map Skipping_empty_blacklist_comment
                         (filter (\<lambda>k. map_of delta k = Some []) (map fst delta)),
                       Inr (), k0 + j + 1,
                       tr @ failed_rounds path 3 j @ [Open_write path], fs')
           \<and> fs' path = Some (concat (map (\<lambda>l. the (encode pl l))
                                        (blacklist_header # sort (map blacklist_line merged))))
           \<and> (\<forall>p. p \<noteq> path \<longrightarrow> fs' p = fs p)
           \<and> distinct (map fst merged)
           \<and> (\<forall>x v. ((x, v) \<in> set merged)
                  = (case map_of delta x of
                       None \<Rightarrow> (x, v) \<in> set old
                     | Some r \<Rightarrow> if r = [] then (x, v) \<in> set old else v = r))
           \<and> (\<forall>x. map_of delta x = Some [] \<longrightarrow>
                  (x \<in> set (map fst merged)) = (x \<in> set (map fst old)))"
    by (rule update_blacklist_merges [OF assms 4 5 6 7 8 9])
next
  assume h: "map fst delta = pre @ bad # post \<and> (\<forall>k\<in>set pre. pf k \<noteq> None) \<and> pf bad = None"
  have 1: "map fst delta = pre @ bad # post" using h by (elim conjE)
  have 2: "\<forall>k\<in>set pre. pf k \<noteq> None" using h by (elim conjE)
  have 3: "pf bad = None" using h by (elim conjE)
  show "update_blacklist pl pf att delta path (k0, tr, fs)
          = Some (map Skipping_empty_blacklist_comment
                    (filter (\<lambda>k. map_of delta k = Some []) pre),
                  Inl (MetadataException
                         (''Attempt to add invalid scan name '' @ bad @ '' to blacklist'')),
                  k0, tr, fs)"
    by (rule update_blacklist_invalid_key [OF assms(1,2) 1 2 3])
qed


text \<open>
  C8, as stated, fails: the blacklist file holds \<open>STU_CMH_0001_01_01_T1_02_SagT1\<close>
  with the reason \<open>motion\<close>; an update with that scan and an empty reason is
  skipped, and the scan is still in the file that is written and read back. (The
  encoding is Latin-1, where every byte is a character.)
\<close>

theorem update_blacklist_keeps_prior_entry:
  "map_option (\<lambda>(lg, r, k, tr, fs'). (lg, r, fs' ''blacklist.csv'',
        read_blacklist
          \<lparr>decode = Some, encode = Some,
          open_error = (\<lambda>p. ''No such file or directory''), decode_error = (\<lambda>b. []),
          dash_found = False, update_qc_reviewers = (\<lambda>d. Inr ()),
          update_scan_checklist = (\<lambda>d. Inr ())\<rparr>
          (\<lambda>s. if length s < 16 then None
             else Some (\<lparr>id_site = ''CMH'', id_session = ''01'', id_str = take 18 s,
                         id_full_subjectid_with_timepoint = take 15 s\<rparr>,
                        ''T1'', ''02'', ''SagT1''))
          ''blacklist.csv'' fs'))
     (update_blacklist
        \<lparr>decode = Some, encode = Some,
          open_error = (\<lambda>p. ''No such file or directory''), decode_error = (\<lambda>b. []),
          dash_found = False, update_qc_reviewers = (\<lambda>d. Inr ()),
          update_scan_checklist = (\<lambda>d. Inr ())\<rparr>
        (\<lambda>s. if length s < 16 then None
             else Some (\<lparr>id_site = ''CMH'', id_session = ''01'', id_str = take 18 s,
                         id_full_subjectid_with_timepoint = take 15 s\<rparr>,
                        ''T1'', ''02'', ''SagT1''))
        (\<lambda>k. Succeeds)
        [(''STU_CMH_0001_01_01_T1_02_SagT1'', [])]
        ''blacklist.csv''
        (0, [], [''blacklist.csv'' \<mapsto>
             ''series'' @ [CHR 0x09] @ ''reason'' @ [CHR 0x0A]
             @ ''STU_CMH_0001_01_01_T1_02_SagT1 motion'' @ [CHR 0x0A]]))
   = Some ([Skipping_empty_blacklist_comment ''STU_CMH_0001_01_01_T1_02_SagT1''],
           Inr (),
           Some (''series'' @ [CHR 0x09] @ ''reason'' @ [CHR 0x0A]
                 @ ''STU_CMH_0001_01_01_T1_02_SagT1 motion'' @ [CHR 0x0A]),
           Inr (Entries [(''STU_CMH_0001_01_01_T1_02_SagT1'', ''motion'')]))"
  by code_simp

theorem update_blacklist_skips_empty_reasons_witness:
  "read_blacklist
     \<lparr>decode = Some, encode = Some,
          open_error = (\<lambda>p. ''No such file or directory''), decode_error = (\<lambda>b. []),
          dash_found = False, update_qc_reviewers = (\<lambda>d. Inr ()),
          update_scan_checklist = (\<lambda>d. Inr ())\<rparr>
     (\<lambda>s. if length s < 16 then None
             else Some (\<lparr>id_site = ''CMH'', id_session = ''01'', id_str = take 18 s,
                         id_full_subjectid_with_timepoint = take 15 s\<rparr>,
                        ''T1'', ''02'', ''SagT1''))
     ''blacklist.csv''
     [''blacklist.csv'' \<mapsto>
             ''series'' @ [CHR 0x09] @ ''reason'' @ [CHR 0x0A]
             @ ''STU_CMH_0001_01_01_T1_02_SagT1 motion'' @ [CHR 0x0A]]
   = Inr (Entries [(''STU_CMH_0001_01_01_T1_02_SagT1'', ''motion'')])
   \<and> (\<exists>merged fs'.
         update_blacklist
           \<lparr>decode = Some, encode = Some,
          open_error = (\<lambda>p. ''No such file or directory''), decode_error = (\<lambda>b. []),
          dash_found = False, update_qc_reviewers = (\<lambda>d. Inr ()),
          update_scan_checklist = (\<lambda>d. Inr ())\<rparr>
           (\<lambda>s. if length s < 16 then None
             else Some (\<lparr>id_site = ''CMH'', id_session = ''01'', id_str = take 18 s,
                         id_full_subjectid_with_timepoint = take 15 s\<rparr>,
                        ''T1'', ''02'', ''SagT1''))
           (\<lambda>k. Succeeds)
           [(''STU_CMH_0001_01_01_T1_02_SagT1'', []), (''STU_CMH_0001_01_01_T2_03_AxT2'', ''ghosting'')]
           ''blacklist.csv''
           (0, [], [''blacklist.csv'' \<mapsto>
             ''series'' @ [CHR 0x09] @ ''reason'' @ [CHR 0x0A]
             @ ''STU_CMH_0001_01_01_T1_02_SagT1 motion'' @ [CHR 0x0A]])
         = Some ([Skipping_empty_blacklist_comment ''STU_CMH_0001_01_01_T1_02_SagT1''],
                 Inr (), 1, [Open_write ''blacklist.csv''], fs')
       \<and> fs' ''blacklist.csv''
           = Some (concat (blacklist_header # sort (map blacklist_line merged)))
       \<and> distinct (map fst merged)
       \<and> (''STU_CMH_0001_01_01_T1_02_SagT1'', ''motion'') \<in> set merged
       \<and> (''STU_CMH_0001_01_01_T2_03_AxT2'', ''ghosting'') \<in> set merged
       \<and> length merged = 2)
   \<and> update_blacklist
         \<lparr>decode = Some, encode = Some,
          open_error = (\<lambda>p. ''No such file or directory''), decode_error = (\<lambda>b. []),
          dash_found = False, update_qc_reviewers = (\<lambda>d. Inr ()),
          update_scan_checklist = (\<lambda>d. Inr ())\<rparr>
         (\<lambda>s. if length s < 16 then None
             else Some (\<lparr>id_site = ''CMH'', id_session = ''01'', id_str = take 18 s,
                         id_full_subjectid_with_timepoint = take 15 s\<rparr>,
                        ''T1'', ''02'', ''SagT1''))
         (\<lambda>k. Succeeds)
         [(''STU_CMH_0001_01_01_T1_02_SagT1'', []), (''scan'', ''ghosting'')]
         ''blacklist.csv''
         (0, [], [''blacklist.csv'' \<mapsto>
             ''series'' @ [CHR 0x09] @ ''reason'' @ [CHR 0x0A]
             @ ''STU_CMH_0001_01_01_T1_02_SagT1 motion'' @ [CHR 0x0A]])
       = Some ([Skipping_empty_blacklist_comment ''STU_CMH_0001_01_01_T1_02_SagT1''],
               Inl (MetadataException ''Attempt to add invalid scan name scan to blacklist''),
               0, [], [''blacklist.csv'' \<mapsto>
             ''series'' @ [CHR 0x09] @ ''reason'' @ [CHR 0x0A]
             @ ''STU_CMH_0001_01_01_T1_02_SagT1 motion'' @ [CHR 0x0A]])"
proof -
  let ?pl = "\<lparr>decode = Some, encode = Some,
          open_error = (\<lambda>p. ''No such file or directory''), decode_error = (\<lambda>b. []),
          dash_found = False, update_qc_reviewers = (\<lambda>d. Inr ()),
          update_scan_checklist = (\<lambda>d. Inr ())\<rparr>"
  let ?pf = "(\<lambda>s. if length s < 16 then None
             else Some (\<lparr>id_site = ''CMH'', id_session = ''01'', id_str = take 18 s,
                         id_full_subjectid_with_timepoint = take 15 s\<rparr>,
                        ''T1'', ''02'', ''SagT1''))"
  let ?fs = "[''blacklist.csv'' \<mapsto>
             ''series'' @ [CHR 0x09] @ ''reason'' @ [CHR 0x0A]
             @ ''STU_CMH_0001_01_01_T1_02_SagT1 motion'' @ [CHR 0x0A]]"
  let ?x = "''STU_CMH_0001_01_01_T1_02_SagT1''"
  let ?y = "''STU_CMH_0001_01_01_T2_03_AxT2''"
  let ?delta = "[(?x, []), (?y, ''ghosting'')]"
  let ?delta2 = "[(?x, []), (''scan'', ''ghosting'')]"
  let ?old = "[(?x, ''motion'')]"
  let ?att = "\<lambda>k::nat. Succeeds"
  have 1: "''blacklist.csv'' \<noteq> []" by simp
  have 2: "read_blacklist ?pl ?pf ''blacklist.csv'' ?fs = Inr (Entries ?old)"
    by code_simp
  have 3: "distinct (map fst ?delta)" by simp
  have d2: "distinct (map fst ?delta2)" by simp
  have h: "(\<forall>k\<in>set (map fst ?delta). ?pf k \<noteq> None)
          \<and> encode ?pl blacklist_header \<noteq> None
          \<and> (\<forall>e\<in>set ?old \<union> set ?delta. encode ?pl (blacklist_line e) \<noteq> None)
          \<and> (0::nat) < 3 \<and> ?att (0 + (0::nat)) = Succeeds
          \<and> (\<forall>i<(0::nat). ?att (0 + i) \<noteq> Succeeds)"
    by simp
  have h2: "map fst ?delta2 = [?x] @ ''scan'' # [] \<and> (\<forall>k\<in>set [?x]. ?pf k \<noteq> None)
            \<and> ?pf ''scan'' = None"
    by simp
  from update_blacklist_skips_empty_reasons [OF 1 2 3, where att = ?att and j = 0
         and ?k0.0 = 0 and tr = "[]", THEN conjunct1, THEN mp, OF h]
  obtain merged fs' where
    u: "update_blacklist ?pl ?pf ?att ?delta ''blacklist.csv'' (0, [], ?fs)
        = Some (map Skipping_empty_blacklist_comment
                  (filter (\<lambda>k. map_of ?delta k = Some []) (map fst ?delta)),
                Inr (), 0 + 0 + 1, [] @ failed_rounds ''blacklist.csv'' 3 0
                  @ [Open_write ''blacklist.csv''], fs')"
    and c: "fs' ''blacklist.csv''
            = Some (concat (map (\<lambda>l. the (encode ?pl l))
                      (blacklist_header # sort (map blacklist_line merged))))"
    and d: "distinct (map fst merged)"
    and m: "\<forall>x v. ((x, v) \<in> set merged)
                = (case map_of ?delta x of
                     None \<Rightarrow> (x, v) \<in> set ?old
                   | Some r \<Rightarrow> if r = [] then (x, v) \<in> set ?old else v = r)"
    by blast
  have u': "update_blacklist ?pl ?pf ?att ?delta ''blacklist.csv'' (0, [], ?fs)
        = Some ([Skipping_empty_blacklist_comment ?x], Inr (), 1,
                [Open_write ''blacklist.csv''], fs')"
    using u by simp
  have c': "fs' ''blacklist.csv''
            = Some (concat (blacklist_header # sort (map blacklist_line merged)))"
    using c by simp
  have mx: "(?x, ''motion'') \<in> set merged"
    using m [rule_format, of ?x "''motion''"] by simp
  have my: "(?y, ''ghosting'') \<in> set merged"
    using m [rule_format, of ?y "''ghosting''"] by simp
  have keys: "set (map fst merged) = {?x, ?y}"
  proof -
    have "fst e \<in> {?x, ?y}" if "e \<in> set merged" for e
    proof -
      obtain a b where e: "e = (a, b)" by (cases e)
      show ?thesis
        using m [rule_format, of a b] that e
        by (auto split: option.splits if_splits)
    qed
    then show ?thesis using mx my by force
  qed
  have len: "length merged = 2"
  proof -
    have "length merged = length (map fst merged)" by simp
    also have "\<dots> = card (set (map fst merged))"
      using d by (simp only: distinct_card)
    also have "\<dots> = 2" unfolding keys by simp
    finally show ?thesis .
  qed
  from update_blacklist_skips_empty_reasons [OF 1 2 d2, where att = ?att and j = 0
         and ?k0.0 = 0 and tr = "[]" and pre = "[?x]" and bad = "''scan''" and post = "[]",
         THEN conjunct2, THEN mp, OF h2]
  have v: "update_blacklist ?pl ?pf ?att ?delta2 ''blacklist.csv'' (0, [], ?fs)
       = Some ([Skipping_empty_blacklist_comment ?x],
               Inl (MetadataException ''Attempt to add invalid scan name scan to blacklist''),
               0, [], ?fs)"
    by simp
  show ?thesis
    apply (intro conjI)
      apply (rule 2)
     apply (rule exI [of _ merged], rule exI [of _ fs'])
     apply (intro conjI)
          apply (rule u')
         apply (rule c')
        apply (rule d)
       apply (rule mx)
      apply (rule my)
     apply (rule len)
    apply (rule v)
    done
qed

section \<open>Updating and reading back the checklist\<close>

text \<open>
  C2, as stated, fails: the checklist file is empty; an update with the comment
  \<open>bad  scan\<close> (two spaces) for \<open>STU_CMH_0001_01\<close> writes that comment, and
  reading the file back yields \<open>bad scan\<close> (one space), because the reader splits
  the line at whitespace and joins the fields with single spaces.
\<close>

theorem update_checklist_normalises_comment:
  "map_option (\<lambda>(r, k, tr, fs'). (r, fs' ''checklist.csv'',
        read_checklist
          \<lparr>decode = Some, encode = Some,
          open_error = (\<lambda>p. ''No such file or directory''), decode_error = (\<lambda>b. []),
          dash_found = False, update_qc_reviewers = (\<lambda>d. Inr ()),
          update_scan_checklist = (\<lambda>d. Inr ())\<rparr>
          (\<lambda>s. Some \<lparr>id_site = ''CMH'', id_session = [], id_str = s,
                      id_full_subjectid_with_timepoint = s\<rparr>)
          ''checklist.csv'' fs'))
     (update_checklist
        \<lparr>decode = Some, encode = Some,
          open_error = (\<lambda>p. ''No such file or directory''), decode_error = (\<lambda>b. []),
          dash_found = False, update_qc_reviewers = (\<lambda>d. Inr ()),
          update_scan_checklist = (\<lambda>d. Inr ())\<rparr>
        (\<lambda>s. Some \<lparr>id_site = ''CMH'', id_session = [], id_str = s,
                    id_full_subjectid_with_timepoint = s\<rparr>)
        (\<lambda>k. Succeeds)
        [(''STU_CMH_0001_01'', ''bad  scan'')]
        ''checklist.csv''
        (0, [], [''checklist.csv'' \<mapsto> []]))
   = Some (Inr (),
           Some (''qc_STU_CMH_0001_01.html bad  scan'' @ [CHR 0x0A]),
           Inr (Entries [(''STU_CMH_0001_01'', ''bad scan'')]))"
  by code_simp

section \<open>The submission driver: what a run leaves untouched\<close>






section \<open>The submission driver: the lines of the batch file\<close>


lemma queue_rows_all_skipped:
  "\<forall>r\<in>set rs. row_command e a w run_dir r = None \<Longrightarrow>
     queue_rows e a w run_dir rs = ([], rs, False, True)"
  by (induction rs) auto











section \<open>The submission driver: a dry run\<close>

text \<open>
  C5. A dry run on the sample study, starting with no file and no directory: the run
  returns, no job is started (the two commands are only logged) and the checklist file is
  not written, but the two directories are made and both run scripts are written and made
  executable.
\<close>

theorem dry_run_writes_run_scripts:
  "case main sample_env (sample_args True) fresh_world of
     (x, w', lines) \<Rightarrow>
       x = Returned
     \<and> dirs w' = [''/data/enigmaDTI/logs'', ''/data/enigmaDTI/bin'']
     \<and> files w' ''/data/enigmaDTI/bin/run_engimadti.sh''
         = Some (''#!/bin/bash'' @ [CHR 0x0A, CHR 0x0A]
                 @ ''## this script was created by dm-proc-engima.py'' @ [CHR 0x0A, CHR 0x0A]
                 @ ''## Prints loaded modules to the log'' @ [CHR 0x0A]
                 @ ''module list'' @ [CHR 0x0A, CHR 0x0A]
                 @ ''OUTDIR=${1}'' @ [CHR 0x0A]
                 @ ''FAMAP=${2}'' @ [CHR 0x0A, CHR 0x0A]
                 @ ''doInd-enigma-dti.py ${OUTDIR} ${FAMAP} '' @ [CHR 0x0A])
     \<and> modes w' ''/data/enigmaDTI/bin/run_engimadti.sh'' = Some 493
     \<and> files w' ''/data/enigmaDTI/bin/concatresults.sh''
         = Some (''#!/bin/bash'' @ [CHR 0x0A, CHR 0x0A]
                 @ ''## this script was created by dm-proc-engima.py'' @ [CHR 0x0A, CHR 0x0A]
                 @ ''## Prints loaded modules to the log'' @ [CHR 0x0A]
                 @ ''module list'' @ [CHR 0x0A, CHR 0x0A]
                 @ ''OUTDIR=/data/enigmaDTI '' @ [CHR 0x0A, CHR 0x0A]
                 @ ''dm-proc-enigma-concat.py ${OUTDIR} '' @ [CHR 0x22] @ ''FA''
                 @ [CHR 0x22, CHR 0x22] @ ''${OUTDIR}/enigmaDTI-FA-results.csv''
                 @ [CHR 0x22, CHR 0x0A, CHR 0x0A]
                 @ ''dm-qc-enigma.py ${OUTDIR} '' @ [CHR 0x0A])
     \<and> modes w' ''/data/enigmaDTI/bin/concatresults.sh'' = Some 493
     \<and> files w' ''/data/enigmaDTI/ENIGMA-DTI-checklist.csv'' = None
     \<and> executed w' = []
     \<and> skipped w'
         = [''qbatch -N edtiSTU_20260101-120000 /tmp/tmp1/commands.txt'',
            ''echo bash -l /data/enigmaDTI/bin/concatresults.sh | qbatch -N ''
            @ ''edtiSTU_20260101-120000_post --afterok edtiSTU_20260101-120000 -'']"
  by code_simp

end
